theory Spec2Isabelle
  imports Main
begin

section \<open>Python values, exceptions and effects\<close>

text \<open>
  The tools of \<^verbatim>\<open>server.py\<close> return dictionaries and lists of dictionaries, and read
  the parsed JSON body of the remote response. Both are values of \<open>pyval\<close>. A dictionary
  is its list of items in insertion order; a lookup takes the first binding of a key.
  A float is carried as a pair of integers and never computed with.
\<close>

datatype pyval =
    PNone
  | PBool bool
  | PInt int
  | PFloat int int
  | PStr string
  | PList "pyval list"
  | PDict "(string \<times> pyval) list"

text \<open>
  The exceptions are the subclasses of \<^verbatim>\<open>Exception\<close>, each with the text that
  \<^verbatim>\<open>str(e)\<close> gives. Interpreter exits and keyboard interrupts, which are not
  subclasses of \<^verbatim>\<open>Exception\<close>, are outside the model.
\<close>

datatype exn =
    HttpError string
  | DefaultCredentialsError string
  | AttributeError string
  | TypeError string
  | ConnectionError string
  | OtherException string

fun str_exn :: "exn \<Rightarrow> string" where
  "str_exn (HttpError m) = m"
| "str_exn (DefaultCredentialsError m) = m"
| "str_exn (AttributeError m) = m"
| "str_exn (TypeError m) = m"
| "str_exn (ConnectionError m) = m"
| "str_exn (OtherException m) = m"

fun is_HttpError :: "exn \<Rightarrow> bool" where
  "is_HttpError (HttpError m) = True"
| "is_HttpError e = False"

fun is_DefaultCredentialsError :: "exn \<Rightarrow> bool" where
  "is_DefaultCredentialsError (DefaultCredentialsError m) = True"
| "is_DefaultCredentialsError e = False"

text \<open>
  What credential resolution returns when it is not \<^verbatim>\<open>None\<close>: a credentials object
  (opaque, of type \<open>'c\<close>) loaded from a service-account file or found by
  \<^verbatim>\<open>google.auth.default()\<close>, or the API key, a \<^verbatim>\<open>str\<close>. A credentials object is
  truthy (the classes define neither \<^verbatim>\<open>__bool__\<close> nor \<^verbatim>\<open>__len__\<close>) and is not
  an instance of \<^verbatim>\<open>str\<close>.
\<close>

datatype 'c credential =
    ServiceAccountCredential 'c
  | ApiKeyCredential string
  | DefaultCredential 'c

text \<open>
  Truthiness of what the resolver returns, as \<^verbatim>\<open>if not credentials\<close> and
  \<^verbatim>\<open>bool(credentials)\<close> test it: \<^verbatim>\<open>None\<close> and the empty string are falsy.
\<close>

definition truthy :: "'c credential option \<Rightarrow> bool" where
  "truthy credentials =
     (case credentials of
        None \<Rightarrow> False
      | Some (ApiKeyCredential s) \<Rightarrow> s \<noteq> []
      | Some (ServiceAccountCredential c) \<Rightarrow> True
      | Some (DefaultCredential c) \<Rightarrow> True)"

text \<open>The keyword arguments of \<^verbatim>\<open>service.list(...)\<close>.\<close>

record request =
  q_param :: string
  cx_param :: string
  num_param :: int
  searchType_param :: "string option"

text \<open>
  The effects of one invocation, in order: the records handed to the logger and the
  remote calls, each an \<^verbatim>\<open>execute()\<close> of the request object that
  \<^verbatim>\<open>service.list\<close> made from the keyword arguments.
\<close>

datatype event =
    LogWarning string
  | LogError string
  | Execute request

text \<open>
  The client that \<^verbatim>\<open>build\<close> returns, as far as the tools use it. The attribute
  lookup \<^verbatim>\<open>service.list\<close> raises (a resource without that method) or gives the
  method. The method, called with the keyword arguments, raises or gives a request
  object, and nothing has been sent yet. The request object is what its
  \<^verbatim>\<open>execute()\<close> does: the remote call, which raises or gives the parsed response.
\<close>

record service =
  list_attr :: "exn + (request \<Rightarrow> exn + (exn + pyval))"

text \<open>
  Everything outside the module that one invocation reads: the process environment,
  the paths that exist, and the outcomes of the library calls.
\<close>

record 'c world =
  environ :: "string \<Rightarrow> string option"
  fs :: "string set"
  from_service_account_file :: "string \<Rightarrow> exn + 'c"
  auth_default :: "exn + ('c \<times> string option)"
  build :: "string \<Rightarrow> string \<Rightarrow> string \<Rightarrow> exn + service"

definition os_getenv :: "'c world \<Rightarrow> string \<Rightarrow> string option" where
  "os_getenv w name = environ w name"

text \<open>
  \<^verbatim>\<open>os.path.exists\<close>: the empty path never exists (\<^verbatim>\<open>os.stat('')\<close> fails).
\<close>

definition os_path_exists :: "'c world \<Rightarrow> string \<Rightarrow> bool" where
  "os_path_exists w p = (p \<noteq> [] \<and> p \<in> fs w)"

text \<open>
  Truthiness of an \<^verbatim>\<open>Optional[str]\<close>: \<^verbatim>\<open>None\<close> and \<^verbatim>\<open>''\<close> are falsy.
  \<open>if_truthy\<close> keeps the string exactly when the value is truthy.
\<close>

definition if_truthy :: "string option \<Rightarrow> string option" where
  "if_truthy v = (case v of None \<Rightarrow> None | Some s \<Rightarrow> if s = [] then None else Some s)"

definition opt_str :: "string option \<Rightarrow> pyval" where
  "opt_str v = (case v of None \<Rightarrow> PNone | Some s \<Rightarrow> PStr s)"

section \<open>Dictionary access and iteration\<close>

fun type_name :: "pyval \<Rightarrow> string" where
  "type_name PNone = ''NoneType''"
| "type_name (PBool b) = ''bool''"
| "type_name (PInt i) = ''int''"
| "type_name (PFloat m e) = ''float''"
| "type_name (PStr s) = ''str''"
| "type_name (PList xs) = ''list''"
| "type_name (PDict kvs) = ''dict''"

definition quoted :: "string \<Rightarrow> string" where
  "quoted s = [CHR 0x27] @ s @ [CHR 0x27]"

text \<open>\<^verbatim>\<open>v.get(key, default)\<close>: only a dictionary has the method.\<close>

fun py_get :: "pyval \<Rightarrow> string \<Rightarrow> pyval \<Rightarrow> exn + pyval" where
  "py_get (PDict kvs) key dflt = Inr (case map_of kvs key of None \<Rightarrow> dflt | Some v \<Rightarrow> v)"
| "py_get v key dflt =
     Inl (AttributeError (quoted (type_name v) @ '' object has no attribute '' @ quoted ''get''))"

text \<open>
  The elements a \<^verbatim>\<open>for\<close> visits: those of a list, the keys of a dictionary, the
  characters of a string; the other values are not iterable.
\<close>

fun py_iter :: "pyval \<Rightarrow> exn + pyval list" where
  "py_iter (PList xs) = Inr xs"
| "py_iter (PDict kvs) = Inr (map (\<lambda>kv. PStr (fst kv)) kvs)"
| "py_iter (PStr s) = Inr (map (\<lambda>c. PStr [c]) s)"
| "py_iter v = Inl (TypeError (quoted (type_name v) @ '' object is not iterable''))"

text \<open>A list comprehension: the first element whose expression raises ends it.\<close>

fun comprehension :: "(pyval \<Rightarrow> exn + pyval) \<Rightarrow> pyval list \<Rightarrow> exn + pyval list" where
  "comprehension f [] = Inr []"
| "comprehension f (x # xs) =
     (case f x of
        Inl e \<Rightarrow> Inl e
      | Inr y \<Rightarrow> (case comprehension f xs of Inl e \<Rightarrow> Inl e | Inr ys \<Rightarrow> Inr (y # ys)))"

text \<open>
  \<^verbatim>\<open>items = results.get('items', [])\<close> followed by the comprehension over
  \<^verbatim>\<open>items\<close>; \<open>f\<close> builds the dictionary of one item.
\<close>

definition result_list :: "(pyval \<Rightarrow> exn + pyval) \<Rightarrow> pyval \<Rightarrow> exn + pyval" where
  "result_list f results =
     (case py_get results ''items'' (PList []) of
        Inl e \<Rightarrow> Inl e
      | Inr items \<Rightarrow>
          (case py_iter items of
             Inl e \<Rightarrow> Inl e
           | Inr xs \<Rightarrow> (case comprehension f xs of Inl e \<Rightarrow> Inl e | Inr ys \<Rightarrow> Inr (PList ys))))"

text \<open>The dictionary \<^verbatim>\<open>google_search\<close> builds for one item (lines 74 to 79).\<close>

definition general_item :: "pyval \<Rightarrow> exn + pyval" where
  "general_item item =
     (case py_get item ''title'' (PStr []) of
        Inl e \<Rightarrow> Inl e
      | Inr title \<Rightarrow>
          (case py_get item ''link'' (PStr []) of
             Inl e \<Rightarrow> Inl e
           | Inr link \<Rightarrow>
               (case py_get item ''snippet'' (PStr []) of
                  Inl e \<Rightarrow> Inl e
                | Inr snippet \<Rightarrow>
                    Inr (PDict [(''title'', title), (''link'', link), (''snippet'', snippet),
                                (''source'', PStr ''Google Custom Search'')]))))"

text \<open>The dictionary \<^verbatim>\<open>google_search_web\<close> builds for one item (lines 125 to 130).\<close>

definition web_item :: "pyval \<Rightarrow> exn + pyval" where
  "web_item item =
     (case py_get item ''title'' (PStr []) of
        Inl e \<Rightarrow> Inl e
      | Inr title \<Rightarrow>
          (case py_get item ''link'' (PStr []) of
             Inl e \<Rightarrow> Inl e
           | Inr link \<Rightarrow>
               (case py_get item ''snippet'' (PStr []) of
                  Inl e \<Rightarrow> Inl e
                | Inr snippet \<Rightarrow>
                    Inr (PDict [(''title'', title), (''link'', link), (''snippet'', snippet),
                                (''source'', PStr ''Google Web Search'')]))))"

text \<open>The dictionary \<^verbatim>\<open>google_search_images\<close> builds for one item (lines 175 to 180).\<close>

definition image_item :: "pyval \<Rightarrow> exn + pyval" where
  "image_item item =
     (case py_get item ''title'' (PStr []) of
        Inl e \<Rightarrow> Inl e
      | Inr title \<Rightarrow>
          (case py_get item ''link'' (PStr []) of
             Inl e \<Rightarrow> Inl e
           | Inr link \<Rightarrow>
               (case py_get item ''image'' (PDict []) of
                  Inl e \<Rightarrow> Inl e
                | Inr img \<Rightarrow>
                    Inr (PDict [(''title'', title), (''link'', link), (''image'', img),
                                (''source'', PStr ''Google Image Search'')]))))"

section \<open>Credential resolution\<close>

text \<open>
  Lines 23 to 28: the service-account file is tried when the variable is truthy and the
  path exists. A credential is returned at once; any exception of the loader is logged
  as a warning and the function goes on.
\<close>

definition load_service_account :: "'c world \<Rightarrow> 'c option \<times> event list" where
  "load_service_account w =
     (case os_getenv w ''GOOGLE_APPLICATION_CREDENTIALS'' of
        None \<Rightarrow> (None, [])
      | Some credentials_path \<Rightarrow>
          if credentials_path \<noteq> [] \<and> os_path_exists w credentials_path
          then (case from_service_account_file w credentials_path of
                  Inr c \<Rightarrow> (Some c, [])
                | Inl e \<Rightarrow>
                    (None, [LogWarning (''Failed to load service account from ''
                                         @ credentials_path @ '': '' @ str_exn e)]))
          else (None, []))"

text \<open>
  Lines 36 to 41: default discovery. Only \<^verbatim>\<open>DefaultCredentialsError\<close> is caught;
  any other exception leaves the function.
\<close>

definition discover_default :: "'c world \<Rightarrow> (exn + 'c credential option) \<times> event list" where
  "discover_default w =
     (case auth_default w of
        Inr (credentials, project) \<Rightarrow> (Inr (Some (DefaultCredential credentials)), [])
      | Inl e \<Rightarrow>
          if is_DefaultCredentialsError e
          then (Inr None,
                [LogError ''No Google credentials found. Please set GOOGLE_APPLICATION_CREDENTIALS or GOOGLE_API_KEY''])
          else (Inl e, []))"

text \<open>
  \<^verbatim>\<open>get_google_credentials\<close> (lines 20 to 41): the outcome, \<open>Inl\<close> for an exception
  that leaves the function, and the effects.
\<close>

definition get_google_credentials :: "'c world \<Rightarrow> (exn + 'c credential option) \<times> event list" where
  "get_google_credentials w =
     (case load_service_account w of
        (Some c, t) \<Rightarrow> (Inr (Some (ServiceAccountCredential c)), t)
      | (None, t) \<Rightarrow>
          (case if_truthy (os_getenv w ''GOOGLE_API_KEY'') of
             Some api_key \<Rightarrow> (Inr (Some (ApiKeyCredential api_key)), t)
           | None \<Rightarrow> (case discover_default w of (r, t') \<Rightarrow> (r, t @ t'))))"

section \<open>The search tools\<close>

definition error_dict :: "string \<Rightarrow> pyval" where
  "error_dict msg = PDict [(''error'', PStr msg)]"

text \<open>The body of the \<^verbatim>\<open>try\<close> of \<^verbatim>\<open>google_search\<close> (lines 56 to 86).\<close>

definition google_search_try :: "'c world \<Rightarrow> string \<Rightarrow> int \<Rightarrow> (exn + pyval) \<times> event list" where
  "google_search_try w query num_results =
     (case get_google_credentials w of
        (Inl e, t) \<Rightarrow> (Inl e, t)
      | (Inr credentials, t) \<Rightarrow>
          if \<not> truthy credentials
          then (Inr (error_dict ''No Google credentials available''), t)
          else
            (case credentials of
               Some (ApiKeyCredential developerKey) \<Rightarrow>
                 (case build w ''customsearch'' ''v1'' developerKey of
                    Inl e \<Rightarrow> (Inl e, t)
                  | Inr service \<Rightarrow>
                      (case if_truthy (os_getenv w ''GOOGLE_CSE_ID'') of
                         Some search_engine_id \<Rightarrow>
                           (case list_attr service of
                              Inl e \<Rightarrow> (Inl e, t)
                            | Inr list_method \<Rightarrow>
                                (let r = \<lparr>q_param = query, cx_param = search_engine_id,
                                           num_param = min num_results 10,
                                           searchType_param = None\<rparr>
                                 in case list_method r of
                                      Inl e \<Rightarrow> (Inl e, t)
                                    | Inr http_request \<Rightarrow>
                                        (case http_request of
                                           Inl e \<Rightarrow> (Inl e, t @ [Execute r])
                                         | Inr results \<Rightarrow>
                                             (result_list general_item results, t @ [Execute r]))))
                       | None \<Rightarrow> (Inr (error_dict ''GOOGLE_CSE_ID environment variable not set for Custom Search API''), t)))
             | _ \<Rightarrow> (Inr (error_dict ''Service account authentication not yet implemented for search API''), t)))"

text \<open>The body of the \<^verbatim>\<open>try\<close> of \<^verbatim>\<open>google_search_web\<close> (lines 108 to 136).\<close>

definition google_search_web_try :: "'c world \<Rightarrow> string \<Rightarrow> int \<Rightarrow> (exn + pyval) \<times> event list" where
  "google_search_web_try w query num_results =
     (case get_google_credentials w of
        (Inl e, t) \<Rightarrow> (Inl e, t)
      | (Inr credentials, t) \<Rightarrow>
          if \<not> truthy credentials
          then (Inr (error_dict ''No Google credentials available''), t)
          else
            (case credentials of
               Some (ApiKeyCredential developerKey) \<Rightarrow>
                 (case build w ''customsearch'' ''v1'' developerKey of
                    Inl e \<Rightarrow> (Inl e, t)
                  | Inr service \<Rightarrow>
                      (case if_truthy (os_getenv w ''GOOGLE_CSE_ID'') of
                         Some search_engine_id \<Rightarrow>
                           (case list_attr service of
                              Inl e \<Rightarrow> (Inl e, t)
                            | Inr list_method \<Rightarrow>
                                (let r = \<lparr>q_param = query, cx_param = search_engine_id,
                                           num_param = min num_results 5,
                                           searchType_param = Some ''web''\<rparr>
                                 in case list_method r of
                                      Inl e \<Rightarrow> (Inl e, t)
                                    | Inr http_request \<Rightarrow>
                                        (case http_request of
                                           Inl e \<Rightarrow> (Inl e, t @ [Execute r])
                                         | Inr results \<Rightarrow>
                                             (result_list web_item results, t @ [Execute r]))))
                       | None \<Rightarrow> (Inr (error_dict ''GOOGLE_CSE_ID environment variable not set''), t)))
             | _ \<Rightarrow> (Inr (error_dict ''Service account authentication not yet implemented''), t)))"

text \<open>The body of the \<^verbatim>\<open>try\<close> of \<^verbatim>\<open>google_search_images\<close> (lines 158 to 186).\<close>

definition google_search_images_try :: "'c world \<Rightarrow> string \<Rightarrow> int \<Rightarrow> (exn + pyval) \<times> event list" where
  "google_search_images_try w query num_results =
     (case get_google_credentials w of
        (Inl e, t) \<Rightarrow> (Inl e, t)
      | (Inr credentials, t) \<Rightarrow>
          if \<not> truthy credentials
          then (Inr (error_dict ''No Google credentials available''), t)
          else
            (case credentials of
               Some (ApiKeyCredential developerKey) \<Rightarrow>
                 (case build w ''customsearch'' ''v1'' developerKey of
                    Inl e \<Rightarrow> (Inl e, t)
                  | Inr service \<Rightarrow>
                      (case if_truthy (os_getenv w ''GOOGLE_CSE_ID'') of
                         Some search_engine_id \<Rightarrow>
                           (case list_attr service of
                              Inl e \<Rightarrow> (Inl e, t)
                            | Inr list_method \<Rightarrow>
                                (let r = \<lparr>q_param = query, cx_param = search_engine_id,
                                           num_param = min num_results 5,
                                           searchType_param = Some ''image''\<rparr>
                                 in case list_method r of
                                      Inl e \<Rightarrow> (Inl e, t)
                                    | Inr http_request \<Rightarrow>
                                        (case http_request of
                                           Inl e \<Rightarrow> (Inl e, t @ [Execute r])
                                         | Inr results \<Rightarrow>
                                             (result_list image_item results, t @ [Execute r]))))
                       | None \<Rightarrow> (Inr (error_dict ''GOOGLE_CSE_ID environment variable not set''), t)))
             | _ \<Rightarrow> (Inr (error_dict ''Service account authentication not yet implemented''), t)))"

text \<open>
  The two \<^verbatim>\<open>except\<close> clauses, the same in the three tools: an \<^verbatim>\<open>HttpError\<close> first,
  then every other \<^verbatim>\<open>Exception\<close>. Each logs the message and returns it.
\<close>

definition except_clauses :: "(exn + pyval) \<times> event list \<Rightarrow> (exn + pyval) \<times> event list" where
  "except_clauses r =
     (case r of
        (Inr v, t) \<Rightarrow> (Inr v, t)
      | (Inl e, t) \<Rightarrow>
          if is_HttpError e
          then (Inr (error_dict (''Google API error: '' @ str_exn e)),
                t @ [LogError (''Google API error: '' @ str_exn e)])
          else (Inr (error_dict (''Unexpected error: '' @ str_exn e)),
                t @ [LogError (''Unexpected error: '' @ str_exn e)]))"

definition google_search :: "'c world \<Rightarrow> string \<Rightarrow> int \<Rightarrow> (exn + pyval) \<times> event list" where
  "google_search w query num_results = except_clauses (google_search_try w query num_results)"

definition google_search_web :: "'c world \<Rightarrow> string \<Rightarrow> int \<Rightarrow> (exn + pyval) \<times> event list" where
  "google_search_web w query num_results =
     except_clauses (google_search_web_try w query num_results)"

definition google_search_images :: "'c world \<Rightarrow> string \<Rightarrow> int \<Rightarrow> (exn + pyval) \<times> event list" where
  "google_search_images w query num_results =
     except_clauses (google_search_images_try w query num_results)"

section \<open>The health check\<close>

text \<open>
  \<^verbatim>\<open>get_search_health\<close> (lines 196 to 215) has no \<^verbatim>\<open>try\<close>: an exception of the
  resolver leaves it.
\<close>

definition get_search_health :: "'c world \<Rightarrow> (exn + pyval) \<times> event list" where
  "get_search_health w =
     (case get_google_credentials w of
        (Inl e, t) \<Rightarrow> (Inl e, t)
      | (Inr credentials, t) \<Rightarrow>
          (let search_engine_id = os_getenv w ''GOOGLE_CSE_ID'' in
           (Inr (PDict
              [(''status'', PStr (if truthy credentials then ''healthy'' else ''unhealthy'')),
               (''credentials_available'', PBool (truthy credentials)),
               (''search_engine_id_set'', PBool (if_truthy search_engine_id \<noteq> None)),
               (''environment_variables'', PDict
                  [(''GOOGLE_APPLICATION_CREDENTIALS'',
                      opt_str (os_getenv w ''GOOGLE_APPLICATION_CREDENTIALS'')),
                   (''GOOGLE_API_KEY'',
                      (if if_truthy (os_getenv w ''GOOGLE_API_KEY'') \<noteq> None
                       then PStr ''***'' else PNone)),
                   (''GOOGLE_CSE_ID'', opt_str search_engine_id)])]), t)))"

text \<open>The remote calls of a trace: the keyword arguments of each request executed.\<close>

fun calls :: "event list \<Rightarrow> request list" where
  "calls [] = []"
| "calls (Execute r # es) = r # calls es"
| "calls (e # es) = calls es"

section \<open>Reading results\<close>

text \<open>\<open>item_at v path\<close> is \<^verbatim>\<open>v[k1][k2]...\<close> for the keys of \<open>path\<close>, when each exists.\<close>

fun item_at :: "pyval \<Rightarrow> string list \<Rightarrow> pyval option" where
  "item_at v [] = Some v"
| "item_at (PDict kvs) (k # ks) =
     (case map_of kvs k of None \<Rightarrow> None | Some v \<Rightarrow> item_at v ks)"
| "item_at v (k # ks) = None"

text \<open>What the health check reports at a path; nothing when it raises.\<close>

definition health_field :: "'c world \<Rightarrow> string list \<Rightarrow> pyval option" where
  "health_field w path =
     (case fst (get_search_health w) of Inl e \<Rightarrow> None | Inr h \<Rightarrow> item_at h path)"

text \<open>\<open>mentions s msg\<close>: the text \<open>s\<close> occurs in \<open>msg\<close>.\<close>

fun starts_with :: "string \<Rightarrow> string \<Rightarrow> bool" where
  "starts_with [] msg = True"
| "starts_with (c # cs) [] = False"
| "starts_with (c # cs) (d # ds) = (c = d \<and> starts_with cs ds)"

fun mentions :: "string \<Rightarrow> string \<Rightarrow> bool" where
  "mentions s [] = (s = [])"
| "mentions s (d # ds) = (starts_with s (d # ds) \<or> mentions s ds)"

text \<open>
  A well-formed response is a dictionary whose \<^verbatim>\<open>items\<close>, when present, is a list of
  dictionaries; \<open>response_items\<close> gives its items, none when the field is missing.
\<close>

fun is_dict :: "pyval \<Rightarrow> bool" where
  "is_dict (PDict kvs) = True"
| "is_dict v = False"

definition response_items :: "pyval \<Rightarrow> pyval list option" where
  "response_items results =
     (case results of
        PDict kvs \<Rightarrow>
          (case map_of kvs ''items'' of
             None \<Rightarrow> Some []
           | Some (PList xs) \<Rightarrow> if list_all is_dict xs then Some xs else None
           | Some v \<Rightarrow> None)
      | v \<Rightarrow> None)"

text \<open>
  The \<^verbatim>\<open>SearchResult\<close> of the specification for one item of a general search: the
  three fields copied, the empty string for a missing one, and the fixed label.
\<close>

definition copied :: "pyval \<Rightarrow> string \<Rightarrow> pyval" where
  "copied item key =
     (case item of
        PDict kvs \<Rightarrow> (case map_of kvs key of None \<Rightarrow> PStr [] | Some v \<Rightarrow> v)
      | v \<Rightarrow> PStr [])"

definition search_result :: "pyval \<Rightarrow> pyval" where
  "search_result item =
     PDict [(''title'', copied item ''title''), (''link'', copied item ''link''),
            (''snippet'', copied item ''snippet''),
            (''source'', PStr ''Google Custom Search'')]"

text \<open>
  The error value for an exception caught by a tool: an \<^verbatim>\<open>HttpError\<close> is reported
  as a Google API error, any other exception as an unexpected error, each with the
  exception's text.
\<close>

definition reported :: "exn \<Rightarrow> pyval" where
  "reported e =
     PDict [(''error'',
        PStr ((if is_HttpError e then ''Google API error: '' else ''Unexpected error: '')
              @ str_exn e))]"

text \<open>
  What \<^verbatim>\<open>service.list(...).execute()\<close> raises or returns, from what the method
  gives for the keyword arguments.
\<close>

definition client_outcome :: "exn + (exn + pyval) \<Rightarrow> exn + pyval" where
  "client_outcome x = (case x of Inl e \<Rightarrow> Inl e | Inr http_request \<Rightarrow> http_request)"

section \<open>Example worlds\<close>

text \<open>A client whose every search answers with the same response.\<close>

definition answering :: "pyval \<Rightarrow> service" where
  "answering results = \<lparr>list_attr = Inr (\<lambda>r. Inr (Inr results))\<rparr>"

text \<open>A client whose every remote call raises the same exception.\<close>

definition failing :: "exn \<Rightarrow> service" where
  "failing e = \<lparr>list_attr = Inr (\<lambda>r. Inr (Inl e))\<rparr>"

text \<open>
  A client that answers with one item telling what it received: the query as title, the
  identifier as link, and the count and the type selector as snippet and as image.
\<close>

definition echo :: service where
  "echo =
     \<lparr>list_attr = Inr (\<lambda>r. Inr (Inr (PDict
        [(''items'', PList
           [PDict [(''title'', PStr (q_param r)), (''link'', PStr (cx_param r)),
                   (''snippet'', PList [PInt (num_param r), opt_str (searchType_param r)]),
                   (''image'', PList [PInt (num_param r), opt_str (searchType_param r)])]])])))\<rparr>"

text \<open>
  Nothing configured: no variable, no file, a loader that rejects every file, no default
  credentials, and a client whose every search answers with an empty dictionary.
\<close>

definition bare_world :: "nat world" where
  "bare_world =
     \<lparr>environ = (\<lambda>name. None),
      fs = {},
      from_service_account_file = (\<lambda>p. Inl (OtherException ''not a key file'')),
      auth_default = Inl (DefaultCredentialsError ''no default credentials''),
      build = (\<lambda>name version developerKey. Inr (answering (PDict [])))\<rparr>"

text \<open>Only the API key.\<close>

definition key_world :: "nat world" where
  "key_world = bare_world\<lparr>environ := [''GOOGLE_API_KEY'' \<mapsto> ''k3y'']\<rparr>"

text \<open>The API key and the search-engine identifier.\<close>

definition search_world :: "nat world" where
  "search_world =
     bare_world\<lparr>environ := [''GOOGLE_API_KEY'' \<mapsto> ''k3y'', ''GOOGLE_CSE_ID'' \<mapsto> ''cx1'']\<rparr>"

text \<open>A service-account file that loads, beside an API key.\<close>

definition account_world :: "nat world" where
  "account_world =
     bare_world\<lparr>environ := [''GOOGLE_APPLICATION_CREDENTIALS'' \<mapsto> ''/sa.json'',
                             ''GOOGLE_API_KEY'' \<mapsto> ''k3y''],
                 fs := {''/sa.json''},
                 from_service_account_file := (\<lambda>p. Inr 7)\<rparr>"

text \<open>A service-account file that exists and does not load, beside an API key.\<close>

definition broken_file_world :: "nat world" where
  "broken_file_world =
     bare_world\<lparr>environ := [''GOOGLE_APPLICATION_CREDENTIALS'' \<mapsto> ''/sa.json'',
                             ''GOOGLE_API_KEY'' \<mapsto> ''k3y''],
                 fs := {''/sa.json''}\<rparr>"

text \<open>Default credentials only.\<close>

definition default_world :: "nat world" where
  "default_world = bare_world\<lparr>auth_default := Inr (3, Some ''project'')\<rparr>"

text \<open>Default discovery fails with an exception that is not \<^verbatim>\<open>DefaultCredentialsError\<close>.\<close>

definition metadata_down_world :: "nat world" where
  "metadata_down_world = bare_world\<lparr>auth_default := Inl (OtherException ''timed out'')\<rparr>"

text \<open>The API key without the identifier, and a client that cannot be built.\<close>

definition no_client_world :: "nat world" where
  "no_client_world =
     key_world\<lparr>build := (\<lambda>name version developerKey. Inl (OtherException ''unknown api''))\<rparr>"

text \<open>The API key, and the identifier set to the empty string.\<close>

definition empty_id_world :: "nat world" where
  "empty_id_world =
     bare_world\<lparr>environ := [''GOOGLE_API_KEY'' \<mapsto> ''k3y'', ''GOOGLE_CSE_ID'' \<mapsto> []]\<rparr>"

text \<open>A response with two items, the second without a snippet, and the client that gives it.\<close>

definition two_items :: pyval where
  "two_items =
     PDict [(''kind'', PStr ''customsearch#search''),
            (''items'', PList
               [PDict [(''title'', PStr ''A''), (''link'', PStr ''http://a''),
                       (''snippet'', PStr ''first'')],
                PDict [(''title'', PStr ''B''), (''link'', PStr ''http://b'')]])]"

definition two_items_world :: "nat world" where
  "two_items_world =
     search_world\<lparr>build := (\<lambda>name version developerKey. Inr (answering two_items))\<rparr>"

text \<open>A remote call that raises an \<^verbatim>\<open>HttpError\<close>.\<close>

definition quota_world :: "nat world" where
  "quota_world =
     search_world\<lparr>build := (\<lambda>name version developerKey.
                                Inr (failing (HttpError ''quota exceeded'')))\<rparr>"

text \<open>A remote call that fails in the transport, with an exception that is not an
  \<^verbatim>\<open>HttpError\<close>.\<close>

definition connection_world :: "nat world" where
  "connection_world =
     search_world\<lparr>build := (\<lambda>name version developerKey.
                                Inr (failing (ConnectionError ''connection reset'')))\<rparr>"

text \<open>A client without the method \<^verbatim>\<open>list\<close>.\<close>

definition no_list_world :: "nat world" where
  "no_list_world =
     search_world\<lparr>build := (\<lambda>name version developerKey.
        Inr \<lparr>list_attr = Inl (AttributeError ''no attribute list'')\<rparr>)\<rparr>"

text \<open>A client that cannot be built, \<^verbatim>\<open>build\<close> raising an \<^verbatim>\<open>HttpError\<close>.\<close>

definition discovery_world :: "nat world" where
  "discovery_world =
     search_world\<lparr>build := (\<lambda>name version developerKey.
                                Inl (HttpError ''discovery unavailable''))\<rparr>"

text \<open>The client that tells what it received.\<close>

definition echo_world :: "nat world" where
  "echo_world = search_world\<lparr>build := (\<lambda>name version developerKey. Inr echo)\<rparr>"

text \<open>A response whose \<^verbatim>\<open>items\<close> is \<^verbatim>\<open>null\<close>, and the client that gives it.\<close>

definition null_items_world :: "nat world" where
  "null_items_world =
     search_world\<lparr>build := (\<lambda>name version developerKey.
                                Inr (answering (PDict [(''items'', PNone)])))\<rparr>"

section \<open>Facts about the resolver\<close>

lemma if_truthy_Some: "if_truthy v = Some s \<longleftrightarrow> v = Some s \<and> s \<noteq> []"
  by (auto simp: if_truthy_def split: option.splits)

lemma if_truthy_None: "if_truthy v = None \<longleftrightarrow> v = None \<or> v = Some []"
  by (auto simp: if_truthy_def split: option.splits)

lemma calls_append: "calls (xs @ ys) = calls xs @ calls ys"
  by (induction xs rule: calls.induct) simp_all

lemma load_service_account_calls: "calls (snd (load_service_account w)) = []"
  by (simp add: load_service_account_def split: option.splits sum.splits)

lemma discover_default_calls: "calls (snd (discover_default w)) = []"
  by (simp add: discover_default_def split: sum.splits prod.splits)

lemma get_google_credentials_calls: "calls (snd (get_google_credentials w)) = []"
  using load_service_account_calls [of w] discover_default_calls [of w]
  by (auto simp: get_google_credentials_def calls_append split: prod.splits option.splits)

lemma get_google_credentials_truthy:
  "fst (get_google_credentials w) = Inr c \<Longrightarrow> truthy c \<longleftrightarrow> c \<noteq> None"
  by (auto simp: get_google_credentials_def discover_default_def truthy_def if_truthy_Some
           split: prod.splits option.splits sum.splits if_splits credential.splits)

lemma load_service_account_Some:
  "fst (load_service_account w) = Some c \<longleftrightarrow>
     (\<exists>p. environ w ''GOOGLE_APPLICATION_CREDENTIALS'' = Some p \<and> os_path_exists w p
          \<and> from_service_account_file w p = Inr c)"
  by (auto simp: load_service_account_def os_getenv_def os_path_exists_def
           split: option.splits sum.splits)

lemma resolver_after_load:
  "fst (load_service_account w) = None \<Longrightarrow>
   fst (get_google_credentials w) =
     (case if_truthy (os_getenv w ''GOOGLE_API_KEY'') of
        Some api_key \<Rightarrow> Inr (Some (ApiKeyCredential api_key))
      | None \<Rightarrow> fst (discover_default w))"
  by (auto simp: get_google_credentials_def split: prod.splits option.splits)

lemma resolver_loaded:
  "fst (load_service_account w) = Some c \<Longrightarrow>
   fst (get_google_credentials w) = Inr (Some (ServiceAccountCredential c))"
  by (auto simp: get_google_credentials_def split: prod.splits)

text \<open>
  C1. Resolution follows the fixed order. When the service-account variable is set, the
  file exists and loads, its credential is returned. Otherwise (the variable unset, the
  file missing, or the load failing) a set, non-empty API key is returned. Otherwise
  default discovery decides: its credential, or \<^verbatim>\<open>None\<close> on
  \<^verbatim>\<open>DefaultCredentialsError\<close>.
\<close>

theorem resolution_priority:
  "(environ w ''GOOGLE_APPLICATION_CREDENTIALS'' = Some p \<and> os_path_exists w p
      \<and> from_service_account_file w p = Inr c
     \<longrightarrow> fst (get_google_credentials w) = Inr (Some (ServiceAccountCredential c)))
   \<and> (\<not> (\<exists>p c. environ w ''GOOGLE_APPLICATION_CREDENTIALS'' = Some p \<and> os_path_exists w p
               \<and> from_service_account_file w p = Inr c)
      \<longrightarrow> (environ w ''GOOGLE_API_KEY'' = Some k \<and> k \<noteq> []
            \<longrightarrow> fst (get_google_credentials w) = Inr (Some (ApiKeyCredential k)))
        \<and> (environ w ''GOOGLE_API_KEY'' = None \<or> environ w ''GOOGLE_API_KEY'' = Some []
            \<longrightarrow> (auth_default w = Inr (d, project)
                  \<longrightarrow> fst (get_google_credentials w) = Inr (Some (DefaultCredential d)))
              \<and> (auth_default w = Inl (DefaultCredentialsError m)
                  \<longrightarrow> fst (get_google_credentials w) = Inr None)))"
proof -
  have none: "fst (load_service_account w) = None"
    if "\<not> (\<exists>p c. environ w ''GOOGLE_APPLICATION_CREDENTIALS'' = Some p \<and> os_path_exists w p
               \<and> from_service_account_file w p = Inr c)"
    using that by (cases "fst (load_service_account w)") (auto simp: load_service_account_Some)
  show ?thesis
    using resolver_loaded [of w c] load_service_account_Some [of w c] resolver_after_load none
    by (auto simp: os_getenv_def if_truthy_def discover_default_def)
qed

theorem resolution_priority_witness:
  "(environ account_world ''GOOGLE_APPLICATION_CREDENTIALS'' = Some ''/sa.json''
      \<and> os_path_exists account_world ''/sa.json''
      \<and> from_service_account_file account_world ''/sa.json'' = Inr 7
      \<and> environ account_world ''GOOGLE_API_KEY'' = Some ''k3y''
      \<and> fst (get_google_credentials account_world) = Inr (Some (ServiceAccountCredential 7)))
   \<and> (from_service_account_file broken_file_world ''/sa.json''
         = Inl (OtherException ''not a key file'')
      \<and> environ broken_file_world ''GOOGLE_API_KEY'' = Some ''k3y''
      \<and> fst (get_google_credentials broken_file_world) = Inr (Some (ApiKeyCredential ''k3y'')))
   \<and> (environ default_world ''GOOGLE_API_KEY'' = None
      \<and> auth_default default_world = Inr (3, Some ''project'')
      \<and> fst (get_google_credentials default_world) = Inr (Some (DefaultCredential 3)))
   \<and> (environ bare_world ''GOOGLE_API_KEY'' = None
      \<and> auth_default bare_world = Inl (DefaultCredentialsError ''no default credentials'')
      \<and> fst (get_google_credentials bare_world) = Inr None)"
  using resolution_priority [of account_world "''/sa.json''" 7]
    resolution_priority [of broken_file_world _ _ "''k3y''"]
    resolution_priority [of default_world _ _ _ 3 "Some ''project''"]
    resolution_priority [of bare_world _ _ _ _ _ "''no default credentials''"]
  by (simp add: account_world_def broken_file_world_def default_world_def bare_world_def
        os_path_exists_def)

section \<open>Facts about the tools\<close>

lemma calls_except_clauses: "calls (snd (except_clauses x)) = calls (snd x)"
  by (cases x) (auto simp: except_clauses_def calls_append split: sum.splits)

lemma except_clauses_returns: "\<exists>v. fst (except_clauses x) = Inr v"
  by (cases x) (auto simp: except_clauses_def split: sum.splits)

lemma except_clauses_Inr: "fst x = Inr v \<Longrightarrow> fst (except_clauses x) = Inr v"
  by (cases x) (auto simp: except_clauses_def)

lemma except_clauses_Inl:
  "fst x = Inl e \<Longrightarrow>
   fst (except_clauses x) =
     Inr (error_dict ((if is_HttpError e then ''Google API error: '' else ''Unexpected error: '')
                      @ str_exn e))"
  by (cases x) (auto simp: except_clauses_def)

lemma resolved:
  "fst (get_google_credentials w) = r \<Longrightarrow>
   \<exists>t. get_google_credentials w = (r, t) \<and> calls t = []"
  using get_google_credentials_calls [of w] by (cases "get_google_credentials w") auto

lemma resolved_key_nonempty:
  "fst (get_google_credentials w) = Inr (Some (ApiKeyCredential key)) \<Longrightarrow> key \<noteq> []"
  using get_google_credentials_truthy [of w "Some (ApiKeyCredential key)"]
  by (simp add: truthy_def)

text \<open>
  C2. When the resolver returns \<^verbatim>\<open>None\<close>, each of the three search tools returns
  exactly \<^verbatim>\<open>{"error": "No Google credentials available"}\<close>; it returns, it does
  not raise.
\<close>

theorem no_credentials_error:
  assumes "fst (get_google_credentials w) = Inr None"
  shows "fst (google_search w query num_results)
           = Inr (PDict [(''error'', PStr ''No Google credentials available'')])
       \<and> fst (google_search_web w query num_results)
           = Inr (PDict [(''error'', PStr ''No Google credentials available'')])
       \<and> fst (google_search_images w query num_results)
           = Inr (PDict [(''error'', PStr ''No Google credentials available'')])"
proof -
  obtain t where g: "get_google_credentials w = (Inr None, t)"
    using resolved [OF assms] by blast
  show ?thesis
    by (simp add: google_search_def google_search_web_def google_search_images_def
          google_search_try_def google_search_web_try_def google_search_images_try_def
          g truthy_def except_clauses_def error_dict_def)
qed

theorem no_credentials_error_witness:
  "fst (get_google_credentials bare_world) = Inr None
   \<and> fst (google_search bare_world ''isabelle'' 10)
       = Inr (PDict [(''error'', PStr ''No Google credentials available'')])
   \<and> fst (google_search_web bare_world ''isabelle'' 5)
       = Inr (PDict [(''error'', PStr ''No Google credentials available'')])
   \<and> fst (google_search_images bare_world ''isabelle'' 5)
       = Inr (PDict [(''error'', PStr ''No Google credentials available'')])"
proof -
  have h: "fst (get_google_credentials bare_world) = Inr None"
    by (simp add: get_google_credentials_def load_service_account_def discover_default_def
          os_getenv_def if_truthy_def bare_world_def)
  show ?thesis
    using h no_credentials_error [OF h, of "''isabelle''" 10]
      no_credentials_error [OF h, of "''isabelle''" 5]
    by simp
qed

lemma google_search_try_calls:
  "calls (snd (google_search_try w query num_results)) = []
   \<or> (\<exists>cx. calls (snd (google_search_try w query num_results))
         = [\<lparr>q_param = query, cx_param = cx, num_param = min num_results 10,
             searchType_param = None\<rparr>])"
proof -
  obtain r t where g: "get_google_credentials w = (r, t)" and t: "calls t = []"
    using resolved [of w "fst (get_google_credentials w)"] by blast
  show ?thesis
    by (simp add: google_search_try_def g t calls_append Let_def
          split: sum.splits option.splits credential.splits)
qed

lemma google_search_web_try_calls:
  "calls (snd (google_search_web_try w query num_results)) = []
   \<or> (\<exists>cx. calls (snd (google_search_web_try w query num_results))
         = [\<lparr>q_param = query, cx_param = cx, num_param = min num_results 5,
             searchType_param = Some ''web''\<rparr>])"
proof -
  obtain r t where g: "get_google_credentials w = (r, t)" and t: "calls t = []"
    using resolved [of w "fst (get_google_credentials w)"] by blast
  show ?thesis
    by (simp add: google_search_web_try_def g t calls_append Let_def
          split: sum.splits option.splits credential.splits)
qed

lemma google_search_images_try_calls:
  "calls (snd (google_search_images_try w query num_results)) = []
   \<or> (\<exists>cx. calls (snd (google_search_images_try w query num_results))
         = [\<lparr>q_param = query, cx_param = cx, num_param = min num_results 5,
             searchType_param = Some ''image''\<rparr>])"
proof -
  obtain r t where g: "get_google_credentials w = (r, t)" and t: "calls t = []"
    using resolved [of w "fst (get_google_credentials w)"] by blast
  show ?thesis
    by (simp add: google_search_images_try_def g t calls_append Let_def
          split: sum.splits option.splits credential.splits)
qed

lemma every_call:
  "(\<forall>r \<in> set (calls (snd (google_search w query num_results))).
      num_param r = min num_results 10 \<and> num_param r \<le> 10 \<and> searchType_param r = None)
   \<and> (\<forall>r \<in> set (calls (snd (google_search_web w query num_results))).
        num_param r = min num_results 5 \<and> num_param r \<le> 5
        \<and> searchType_param r = Some ''web'')
   \<and> (\<forall>r \<in> set (calls (snd (google_search_images w query num_results))).
        num_param r = min num_results 5 \<and> num_param r \<le> 5
        \<and> searchType_param r = Some ''image'')"
  using google_search_try_calls [of w query num_results]
    google_search_web_try_calls [of w query num_results]
    google_search_images_try_calls [of w query num_results]
  by (auto simp: google_search_def google_search_web_def google_search_images_def
        calls_except_clauses)

lemma tool_result:
  "fst (except_clauses x) = (case fst x of Inl e \<Rightarrow> Inr (reported e) | Inr v \<Rightarrow> Inr v)"
  by (cases x) (auto simp: except_clauses_def reported_def error_dict_def split: sum.splits)

lemma google_search_try_key:
  assumes a: "fst (get_google_credentials w) = Inr (Some (ApiKeyCredential key))"
    and c: "environ w ''GOOGLE_CSE_ID'' = Some cx" "cx \<noteq> []"
    and b: "build w ''customsearch'' ''v1'' key = Inr service"
  shows "fst (google_search_try w query num_results) =
      (case list_attr service of
         Inl e \<Rightarrow> Inl e
       | Inr list_method \<Rightarrow>
           (case client_outcome (list_method
                   \<lparr>q_param = query, cx_param = cx, num_param = min num_results 10,
                     searchType_param = None\<rparr>) of
              Inl e \<Rightarrow> Inl e
            | Inr results \<Rightarrow> result_list general_item results))"
    and "calls (snd (google_search_try w query num_results)) =
      (case list_attr service of
         Inl e \<Rightarrow> []
       | Inr list_method \<Rightarrow>
           (case list_method
                   \<lparr>q_param = query, cx_param = cx, num_param = min num_results 10,
                     searchType_param = None\<rparr> of
              Inl e \<Rightarrow> []
            | Inr http_request \<Rightarrow>
                [\<lparr>q_param = query, cx_param = cx, num_param = min num_results 10,
                   searchType_param = None\<rparr>]))"
proof -
  obtain t where g: "get_google_credentials w = (Inr (Some (ApiKeyCredential key)), t)"
    and t: "calls t = []"
    using resolved [OF a] by blast
  have k: "truthy (Some (ApiKeyCredential key))"
    using resolved_key_nonempty [OF a] by (simp add: truthy_def)
  have cx: "if_truthy (os_getenv w ''GOOGLE_CSE_ID'') = Some cx"
    using c by (simp add: if_truthy_def os_getenv_def)
  show "fst (google_search_try w query num_results) =
      (case list_attr service of
         Inl e \<Rightarrow> Inl e
       | Inr list_method \<Rightarrow>
           (case client_outcome (list_method
                   \<lparr>q_param = query, cx_param = cx, num_param = min num_results 10,
                     searchType_param = None\<rparr>) of
              Inl e \<Rightarrow> Inl e
            | Inr results \<Rightarrow> result_list general_item results))"
    by (simp add: google_search_try_def g k cx b client_outcome_def Let_def split: sum.splits)
  show "calls (snd (google_search_try w query num_results)) =
      (case list_attr service of
         Inl e \<Rightarrow> []
       | Inr list_method \<Rightarrow>
           (case list_method
                   \<lparr>q_param = query, cx_param = cx, num_param = min num_results 10,
                     searchType_param = None\<rparr> of
              Inl e \<Rightarrow> []
            | Inr http_request \<Rightarrow>
                [\<lparr>q_param = query, cx_param = cx, num_param = min num_results 10,
                   searchType_param = None\<rparr>]))"
    by (simp add: google_search_try_def g k cx b t calls_append Let_def split: sum.splits)
qed

lemma google_search_web_try_key:
  assumes a: "fst (get_google_credentials w) = Inr (Some (ApiKeyCredential key))"
    and c: "environ w ''GOOGLE_CSE_ID'' = Some cx" "cx \<noteq> []"
    and b: "build w ''customsearch'' ''v1'' key = Inr service"
  shows "fst (google_search_web_try w query num_results) =
      (case list_attr service of
         Inl e \<Rightarrow> Inl e
       | Inr list_method \<Rightarrow>
           (case client_outcome (list_method
                   \<lparr>q_param = query, cx_param = cx, num_param = min num_results 5,
                     searchType_param = Some ''web''\<rparr>) of
              Inl e \<Rightarrow> Inl e
            | Inr results \<Rightarrow> result_list web_item results))"
    and "calls (snd (google_search_web_try w query num_results)) =
      (case list_attr service of
         Inl e \<Rightarrow> []
       | Inr list_method \<Rightarrow>
           (case list_method
                   \<lparr>q_param = query, cx_param = cx, num_param = min num_results 5,
                     searchType_param = Some ''web''\<rparr> of
              Inl e \<Rightarrow> []
            | Inr http_request \<Rightarrow>
                [\<lparr>q_param = query, cx_param = cx, num_param = min num_results 5,
                   searchType_param = Some ''web''\<rparr>]))"
proof -
  obtain t where g: "get_google_credentials w = (Inr (Some (ApiKeyCredential key)), t)"
    and t: "calls t = []"
    using resolved [OF a] by blast
  have k: "truthy (Some (ApiKeyCredential key))"
    using resolved_key_nonempty [OF a] by (simp add: truthy_def)
  have cx: "if_truthy (os_getenv w ''GOOGLE_CSE_ID'') = Some cx"
    using c by (simp add: if_truthy_def os_getenv_def)
  show "fst (google_search_web_try w query num_results) =
      (case list_attr service of
         Inl e \<Rightarrow> Inl e
       | Inr list_method \<Rightarrow>
           (case client_outcome (list_method
                   \<lparr>q_param = query, cx_param = cx, num_param = min num_results 5,
                     searchType_param = Some ''web''\<rparr>) of
              Inl e \<Rightarrow> Inl e
            | Inr results \<Rightarrow> result_list web_item results))"
    by (simp add: google_search_web_try_def g k cx b client_outcome_def Let_def split: sum.splits)
  show "calls (snd (google_search_web_try w query num_results)) =
      (case list_attr service of
         Inl e \<Rightarrow> []
       | Inr list_method \<Rightarrow>
           (case list_method
                   \<lparr>q_param = query, cx_param = cx, num_param = min num_results 5,
                     searchType_param = Some ''web''\<rparr> of
              Inl e \<Rightarrow> []
            | Inr http_request \<Rightarrow>
                [\<lparr>q_param = query, cx_param = cx, num_param = min num_results 5,
                   searchType_param = Some ''web''\<rparr>]))"
    by (simp add: google_search_web_try_def g k cx b t calls_append Let_def split: sum.splits)
qed

lemma google_search_images_try_key:
  assumes a: "fst (get_google_credentials w) = Inr (Some (ApiKeyCredential key))"
    and c: "environ w ''GOOGLE_CSE_ID'' = Some cx" "cx \<noteq> []"
    and b: "build w ''customsearch'' ''v1'' key = Inr service"
  shows "fst (google_search_images_try w query num_results) =
      (case list_attr service of
         Inl e \<Rightarrow> Inl e
       | Inr list_method \<Rightarrow>
           (case client_outcome (list_method
                   \<lparr>q_param = query, cx_param = cx, num_param = min num_results 5,
                     searchType_param = Some ''image''\<rparr>) of
              Inl e \<Rightarrow> Inl e
            | Inr results \<Rightarrow> result_list image_item results))"
    and "calls (snd (google_search_images_try w query num_results)) =
      (case list_attr service of
         Inl e \<Rightarrow> []
       | Inr list_method \<Rightarrow>
           (case list_method
                   \<lparr>q_param = query, cx_param = cx, num_param = min num_results 5,
                     searchType_param = Some ''image''\<rparr> of
              Inl e \<Rightarrow> []
            | Inr http_request \<Rightarrow>
                [\<lparr>q_param = query, cx_param = cx, num_param = min num_results 5,
                   searchType_param = Some ''image''\<rparr>]))"
proof -
  obtain t where g: "get_google_credentials w = (Inr (Some (ApiKeyCredential key)), t)"
    and t: "calls t = []"
    using resolved [OF a] by blast
  have k: "truthy (Some (ApiKeyCredential key))"
    using resolved_key_nonempty [OF a] by (simp add: truthy_def)
  have cx: "if_truthy (os_getenv w ''GOOGLE_CSE_ID'') = Some cx"
    using c by (simp add: if_truthy_def os_getenv_def)
  show "fst (google_search_images_try w query num_results) =
      (case list_attr service of
         Inl e \<Rightarrow> Inl e
       | Inr list_method \<Rightarrow>
           (case client_outcome (list_method
                   \<lparr>q_param = query, cx_param = cx, num_param = min num_results 5,
                     searchType_param = Some ''image''\<rparr>) of
              Inl e \<Rightarrow> Inl e
            | Inr results \<Rightarrow> result_list image_item results))"
    by (simp add: google_search_images_try_def g k cx b client_outcome_def Let_def split: sum.splits)
  show "calls (snd (google_search_images_try w query num_results)) =
      (case list_attr service of
         Inl e \<Rightarrow> []
       | Inr list_method \<Rightarrow>
           (case list_method
                   \<lparr>q_param = query, cx_param = cx, num_param = min num_results 5,
                     searchType_param = Some ''image''\<rparr> of
              Inl e \<Rightarrow> []
            | Inr http_request \<Rightarrow>
                [\<lparr>q_param = query, cx_param = cx, num_param = min num_results 5,
                   searchType_param = Some ''image''\<rparr>]))"
    by (simp add: google_search_images_try_def g k cx b t calls_append Let_def split: sum.splits)
qed

lemma resolver_raises_tools:
  assumes "fst (get_google_credentials w) = Inl e"
  shows "fst (google_search_try w query num_results) = Inl e"
    and "fst (google_search_web_try w query num_results) = Inl e"
    and "fst (google_search_images_try w query num_results) = Inl e"
proof -
  obtain t where g: "get_google_credentials w = (Inl e, t)"
    using resolved [OF assms] by blast
  show "fst (google_search_try w query num_results) = Inl e"
    by (simp add: google_search_try_def g)
  show "fst (google_search_web_try w query num_results) = Inl e"
    by (simp add: google_search_web_try_def g)
  show "fst (google_search_images_try w query num_results) = Inl e"
    by (simp add: google_search_images_try_def g)
qed

lemma build_raises_tools:
  assumes a: "fst (get_google_credentials w) = Inr (Some (ApiKeyCredential key))"
    and b: "build w ''customsearch'' ''v1'' key = Inl e"
  shows "google_search_try w query num_results = (Inl e, snd (get_google_credentials w))"
    and "google_search_web_try w query num_results = (Inl e, snd (get_google_credentials w))"
    and "google_search_images_try w query num_results = (Inl e, snd (get_google_credentials w))"
proof -
  obtain t where g: "get_google_credentials w = (Inr (Some (ApiKeyCredential key)), t)"
    using resolved [OF a] by blast
  have k: "truthy (Some (ApiKeyCredential key))"
    using resolved_key_nonempty [OF a] by (simp add: truthy_def)
  show "google_search_try w query num_results = (Inl e, snd (get_google_credentials w))"
    by (simp add: google_search_try_def g k b)
  show "google_search_web_try w query num_results = (Inl e, snd (get_google_credentials w))"
    by (simp add: google_search_web_try_def g k b)
  show "google_search_images_try w query num_results = (Inl e, snd (get_google_credentials w))"
    by (simp add: google_search_images_try_def g k b)
qed

text \<open>
  C3. What the client receives. With an API key resolved, the search-engine identifier
  set and the client built, each tool calls the method \<^verbatim>\<open>list\<close> once, with the
  query, the identifier, the count \<open>min num_results 10\<close> (general) or
  \<open>min num_results 5\<close> (web, image) and the type selector absent, \<^verbatim>\<open>"web"\<close> or
  \<^verbatim>\<open>"image"\<close>: what the tool returns is what the method gives for exactly these
  arguments, and they are the arguments of the one remote call. In every world, every
  remote call carries such a count, at most 10 or 5, and such a selector; a client
  without the method gets no call.
\<close>

theorem remote_call_parameters:
  "(\<forall>r \<in> set (calls (snd (google_search w query num_results))).
      num_param r = min num_results 10 \<and> num_param r \<le> 10 \<and> searchType_param r = None)
   \<and> (\<forall>r \<in> set (calls (snd (google_search_web w query num_results))).
      num_param r = min num_results 5 \<and> num_param r \<le> 5 \<and> searchType_param r = Some ''web'')
   \<and> (\<forall>r \<in> set (calls (snd (google_search_images w query num_results))).
      num_param r = min num_results 5 \<and> num_param r \<le> 5 \<and> searchType_param r = Some ''image'')
   \<and> (fst (get_google_credentials w) = Inr (Some (ApiKeyCredential key))
        \<and> environ w ''GOOGLE_CSE_ID'' = Some cx \<and> cx \<noteq> []
        \<and> build w ''customsearch'' ''v1'' key = Inr service
        \<and> list_attr service = Inr list_method
      \<longrightarrow>
        fst (google_search w query num_results)
          = (case client_outcome (list_method
                    \<lparr>q_param = query, cx_param = cx, num_param = min num_results 10,
                      searchType_param = None\<rparr>) of
               Inl e \<Rightarrow> Inr (reported e)
             | Inr results \<Rightarrow>
                 (case result_list general_item results of
                    Inl e \<Rightarrow> Inr (reported e)
                  | Inr v \<Rightarrow> Inr v))
        \<and> calls (snd (google_search w query num_results))
          = (case list_method
                    \<lparr>q_param = query, cx_param = cx, num_param = min num_results 10,
                      searchType_param = None\<rparr> of
               Inl e \<Rightarrow> []
             | Inr http_request \<Rightarrow>
                 [\<lparr>q_param = query, cx_param = cx, num_param = min num_results 10,
                    searchType_param = None\<rparr>])
        \<and>
        fst (google_search_web w query num_results)
          = (case client_outcome (list_method
                    \<lparr>q_param = query, cx_param = cx, num_param = min num_results 5,
                      searchType_param = Some ''web''\<rparr>) of
               Inl e \<Rightarrow> Inr (reported e)
             | Inr results \<Rightarrow>
                 (case result_list web_item results of
                    Inl e \<Rightarrow> Inr (reported e)
                  | Inr v \<Rightarrow> Inr v))
        \<and> calls (snd (google_search_web w query num_results))
          = (case list_method
                    \<lparr>q_param = query, cx_param = cx, num_param = min num_results 5,
                      searchType_param = Some ''web''\<rparr> of
               Inl e \<Rightarrow> []
             | Inr http_request \<Rightarrow>
                 [\<lparr>q_param = query, cx_param = cx, num_param = min num_results 5,
                    searchType_param = Some ''web''\<rparr>])
        \<and>
        fst (google_search_images w query num_results)
          = (case client_outcome (list_method
                    \<lparr>q_param = query, cx_param = cx, num_param = min num_results 5,
                      searchType_param = Some ''image''\<rparr>) of
               Inl e \<Rightarrow> Inr (reported e)
             | Inr results \<Rightarrow>
                 (case result_list image_item results of
                    Inl e \<Rightarrow> Inr (reported e)
                  | Inr v \<Rightarrow> Inr v))
        \<and> calls (snd (google_search_images w query num_results))
          = (case list_method
                    \<lparr>q_param = query, cx_param = cx, num_param = min num_results 5,
                      searchType_param = Some ''image''\<rparr> of
               Inl e \<Rightarrow> []
             | Inr http_request \<Rightarrow>
                 [\<lparr>q_param = query, cx_param = cx, num_param = min num_results 5,
                    searchType_param = Some ''image''\<rparr>]))
   \<and> (fst (get_google_credentials w) = Inr (Some (ApiKeyCredential key))
        \<and> environ w ''GOOGLE_CSE_ID'' = Some cx \<and> cx \<noteq> []
        \<and> build w ''customsearch'' ''v1'' key = Inr service
        \<and> list_attr service = Inl e
      \<longrightarrow> calls (snd (google_search w query num_results)) = []
        \<and> calls (snd (google_search_web w query num_results)) = []
        \<and> calls (snd (google_search_images w query num_results)) = [])"
proof -
  have one:
    "fst (google_search w query num_results)
       = (case client_outcome (list_method
                 \<lparr>q_param = query, cx_param = cx, num_param = min num_results 10,
                   searchType_param = None\<rparr>) of
            Inl e \<Rightarrow> Inr (reported e)
          | Inr results \<Rightarrow>
              (case result_list general_item results of
                 Inl e \<Rightarrow> Inr (reported e)
               | Inr v \<Rightarrow> Inr v))
     \<and> calls (snd (google_search w query num_results))
       = (case list_method
                 \<lparr>q_param = query, cx_param = cx, num_param = min num_results 10,
                   searchType_param = None\<rparr> of
            Inl e \<Rightarrow> []
          | Inr http_request \<Rightarrow>
              [\<lparr>q_param = query, cx_param = cx, num_param = min num_results 10,
                 searchType_param = None\<rparr>])
     \<and>
     fst (google_search_web w query num_results)
       = (case client_outcome (list_method
                 \<lparr>q_param = query, cx_param = cx, num_param = min num_results 5,
                   searchType_param = Some ''web''\<rparr>) of
            Inl e \<Rightarrow> Inr (reported e)
          | Inr results \<Rightarrow>
              (case result_list web_item results of
                 Inl e \<Rightarrow> Inr (reported e)
               | Inr v \<Rightarrow> Inr v))
     \<and> calls (snd (google_search_web w query num_results))
       = (case list_method
                 \<lparr>q_param = query, cx_param = cx, num_param = min num_results 5,
                   searchType_param = Some ''web''\<rparr> of
            Inl e \<Rightarrow> []
          | Inr http_request \<Rightarrow>
              [\<lparr>q_param = query, cx_param = cx, num_param = min num_results 5,
                 searchType_param = Some ''web''\<rparr>])
     \<and>
     fst (google_search_images w query num_results)
       = (case client_outcome (list_method
                 \<lparr>q_param = query, cx_param = cx, num_param = min num_results 5,
                   searchType_param = Some ''image''\<rparr>) of
            Inl e \<Rightarrow> Inr (reported e)
          | Inr results \<Rightarrow>
              (case result_list image_item results of
                 Inl e \<Rightarrow> Inr (reported e)
               | Inr v \<Rightarrow> Inr v))
     \<and> calls (snd (google_search_images w query num_results))
       = (case list_method
                 \<lparr>q_param = query, cx_param = cx, num_param = min num_results 5,
                   searchType_param = Some ''image''\<rparr> of
            Inl e \<Rightarrow> []
          | Inr http_request \<Rightarrow>
              [\<lparr>q_param = query, cx_param = cx, num_param = min num_results 5,
                 searchType_param = Some ''image''\<rparr>])"
    if a: "fst (get_google_credentials w) = Inr (Some (ApiKeyCredential key))"
      and c: "environ w ''GOOGLE_CSE_ID'' = Some cx" "cx \<noteq> []"
      and b: "build w ''customsearch'' ''v1'' key = Inr service"
      and l: "list_attr service = Inr list_method"
    by (simp add: google_search_def google_search_web_def google_search_images_def
          tool_result calls_except_clauses
          google_search_try_key [OF a c b] google_search_web_try_key [OF a c b]
          google_search_images_try_key [OF a c b] l split: sum.splits)
  have none: "calls (snd (google_search w query num_results)) = []
        \<and> calls (snd (google_search_web w query num_results)) = []
        \<and> calls (snd (google_search_images w query num_results)) = []"
    if a: "fst (get_google_credentials w) = Inr (Some (ApiKeyCredential key))"
      and c: "environ w ''GOOGLE_CSE_ID'' = Some cx" "cx \<noteq> []"
      and b: "build w ''customsearch'' ''v1'' key = Inr service"
      and l: "list_attr service = Inl e"
    by (simp add: google_search_def google_search_web_def google_search_images_def
          calls_except_clauses
          google_search_try_key [OF a c b] google_search_web_try_key [OF a c b]
          google_search_images_try_key [OF a c b] l)
  show ?thesis
    using every_call [of w query num_results] one none by blast
qed

theorem remote_call_parameters_witness:
  "fst (get_google_credentials echo_world) = Inr (Some (ApiKeyCredential ''k3y''))
   \<and> environ echo_world ''GOOGLE_CSE_ID'' = Some ''cx1''
   \<and> build echo_world ''customsearch'' ''v1'' ''k3y'' = Inr echo
   \<and> fst (google_search echo_world ''isabelle'' 100)
       = Inr (PList [PDict [(''title'', PStr ''isabelle''), (''link'', PStr ''cx1''),
                            (''snippet'', PList [PInt 10, PNone]),
                            (''source'', PStr ''Google Custom Search'')]])
   \<and> fst (google_search_web echo_world ''isabelle'' 100)
       = Inr (PList [PDict [(''title'', PStr ''isabelle''), (''link'', PStr ''cx1''),
                            (''snippet'', PList [PInt 5, PStr ''web'']),
                            (''source'', PStr ''Google Web Search'')]])
   \<and> fst (google_search_images echo_world ''isabelle'' 100)
       = Inr (PList [PDict [(''title'', PStr ''isabelle''), (''link'', PStr ''cx1''),
                            (''image'', PList [PInt 5, PStr ''image'']),
                            (''source'', PStr ''Google Image Search'')]])
   \<and> calls (snd (google_search echo_world ''isabelle'' 100))
       = [\<lparr>q_param = ''isabelle'', cx_param = ''cx1'', num_param = 10,
           searchType_param = None\<rparr>]
   \<and> calls (snd (google_search_web echo_world ''isabelle'' 100))
       = [\<lparr>q_param = ''isabelle'', cx_param = ''cx1'', num_param = 5,
           searchType_param = Some ''web''\<rparr>]
   \<and> calls (snd (google_search_images echo_world ''isabelle'' 100))
       = [\<lparr>q_param = ''isabelle'', cx_param = ''cx1'', num_param = 5,
           searchType_param = Some ''image''\<rparr>]
   \<and> calls (snd (google_search no_list_world ''isabelle'' 100)) = []"
proof -
  obtain list_method where l: "list_attr echo = Inr list_method"
    and m: "list_method = (\<lambda>r. Inr (Inr (PDict
        [(''items'', PList
           [PDict [(''title'', PStr (q_param r)), (''link'', PStr (cx_param r)),
                   (''snippet'', PList [PInt (num_param r), opt_str (searchType_param r)]),
                   (''image'', PList [PInt (num_param r), opt_str (searchType_param r)])]])])))"
    by (simp add: echo_def)
  have h: "fst (get_google_credentials echo_world) = Inr (Some (ApiKeyCredential ''k3y''))
      \<and> environ echo_world ''GOOGLE_CSE_ID'' = Some ''cx1'' \<and> ''cx1'' \<noteq> []
      \<and> build echo_world ''customsearch'' ''v1'' ''k3y'' = Inr echo"
    by (simp add: get_google_credentials_def load_service_account_def os_getenv_def
          if_truthy_def echo_world_def search_world_def bare_world_def)
  have h': "fst (get_google_credentials no_list_world) = Inr (Some (ApiKeyCredential ''k3y''))
      \<and> environ no_list_world ''GOOGLE_CSE_ID'' = Some ''cx1'' \<and> ''cx1'' \<noteq> []
      \<and> build no_list_world ''customsearch'' ''v1'' ''k3y''
          = Inr \<lparr>list_attr = Inl (AttributeError ''no attribute list'')\<rparr>"
    by (simp add: get_google_credentials_def load_service_account_def os_getenv_def
          if_truthy_def no_list_world_def search_world_def bare_world_def)
  note r = remote_call_parameters [of echo_world "''isabelle''" 100 "''k3y''" "''cx1''" echo
      list_method, THEN conjunct2, THEN conjunct2, THEN conjunct2, THEN conjunct1, THEN mp]
  note r' = remote_call_parameters [of no_list_world "''isabelle''" 100 "''k3y''" "''cx1''"
      "\<lparr>list_attr = Inl (AttributeError ''no attribute list'')\<rparr>" _
      "AttributeError ''no attribute list''",
      THEN conjunct2, THEN conjunct2, THEN conjunct2, THEN conjunct2, THEN mp]
  have e: "fst (google_search echo_world ''isabelle'' 100)
       = Inr (PList [PDict [(''title'', PStr ''isabelle''), (''link'', PStr ''cx1''),
                            (''snippet'', PList [PInt 10, PNone]),
                            (''source'', PStr ''Google Custom Search'')]])
   \<and> fst (google_search_web echo_world ''isabelle'' 100)
       = Inr (PList [PDict [(''title'', PStr ''isabelle''), (''link'', PStr ''cx1''),
                            (''snippet'', PList [PInt 5, PStr ''web'']),
                            (''source'', PStr ''Google Web Search'')]])
   \<and> fst (google_search_images echo_world ''isabelle'' 100)
       = Inr (PList [PDict [(''title'', PStr ''isabelle''), (''link'', PStr ''cx1''),
                            (''image'', PList [PInt 5, PStr ''image'']),
                            (''source'', PStr ''Google Image Search'')]])
   \<and> calls (snd (google_search echo_world ''isabelle'' 100))
       = [\<lparr>q_param = ''isabelle'', cx_param = ''cx1'', num_param = 10,
           searchType_param = None\<rparr>]
   \<and> calls (snd (google_search_web echo_world ''isabelle'' 100))
       = [\<lparr>q_param = ''isabelle'', cx_param = ''cx1'', num_param = 5,
           searchType_param = Some ''web''\<rparr>]
   \<and> calls (snd (google_search_images echo_world ''isabelle'' 100))
       = [\<lparr>q_param = ''isabelle'', cx_param = ''cx1'', num_param = 5,
           searchType_param = Some ''image''\<rparr>]"
    using r h l
    by (simp add: m client_outcome_def result_list_def general_item_def web_item_def
          image_item_def opt_str_def)
  have n: "calls (snd (google_search no_list_world ''isabelle'' 100)) = []"
    using r' h' by simp
  show ?thesis
    using h e n by simp
qed

text \<open>
  C7. When the resolver returns a credential that is not an API key (a service-account or
  a default credential), each tool returns its fixed error value saying that
  service-account authentication is not yet implemented, and makes no remote call.
\<close>

theorem unimplemented_authentication:
  assumes "fst (get_google_credentials w) = Inr (Some c)"
    and "c = ServiceAccountCredential a \<or> c = DefaultCredential a"
  shows "fst (google_search w query num_results)
           = Inr (PDict [(''error'',
                PStr ''Service account authentication not yet implemented for search API'')])
       \<and> fst (google_search_web w query num_results)
           = Inr (PDict [(''error'',
                PStr ''Service account authentication not yet implemented'')])
       \<and> fst (google_search_images w query num_results)
           = Inr (PDict [(''error'',
                PStr ''Service account authentication not yet implemented'')])
       \<and> calls (snd (google_search w query num_results)) = []
       \<and> calls (snd (google_search_web w query num_results)) = []
       \<and> calls (snd (google_search_images w query num_results)) = []"
proof -
  obtain t where g: "get_google_credentials w = (Inr (Some c), t)" and t: "calls t = []"
    using resolved [OF assms(1)] by blast
  have general: "google_search_try w query num_results =
      (Inr (error_dict ''Service account authentication not yet implemented for search API''), t)"
    using assms(2) by (auto simp: google_search_try_def g truthy_def)
  have web: "google_search_web_try w query num_results =
      (Inr (error_dict ''Service account authentication not yet implemented''), t)"
    using assms(2) by (auto simp: google_search_web_try_def g truthy_def)
  have images: "google_search_images_try w query num_results =
      (Inr (error_dict ''Service account authentication not yet implemented''), t)"
    using assms(2) by (auto simp: google_search_images_try_def g truthy_def)
  show ?thesis
    by (simp add: google_search_def google_search_web_def google_search_images_def
          general web images except_clauses_def error_dict_def t)
qed

theorem unimplemented_authentication_witness:
  "fst (get_google_credentials account_world) = Inr (Some (ServiceAccountCredential 7))
   \<and> fst (google_search account_world ''isabelle'' 10)
       = Inr (PDict [(''error'',
            PStr ''Service account authentication not yet implemented for search API'')])
   \<and> fst (google_search_web account_world ''isabelle'' 5)
       = Inr (PDict [(''error'', PStr ''Service account authentication not yet implemented'')])
   \<and> fst (google_search_images account_world ''isabelle'' 5)
       = Inr (PDict [(''error'', PStr ''Service account authentication not yet implemented'')])
   \<and> calls (snd (google_search account_world ''isabelle'' 10)) = []
   \<and> fst (get_google_credentials default_world) = Inr (Some (DefaultCredential 3))
   \<and> fst (google_search default_world ''isabelle'' 10)
       = Inr (PDict [(''error'',
            PStr ''Service account authentication not yet implemented for search API'')])"
proof -
  have h1: "fst (get_google_credentials account_world) = Inr (Some (ServiceAccountCredential 7))"
    by (simp add: get_google_credentials_def load_service_account_def os_getenv_def
          os_path_exists_def account_world_def bare_world_def)
  have h2: "fst (get_google_credentials default_world) = Inr (Some (DefaultCredential 3))"
    by (simp add: get_google_credentials_def load_service_account_def discover_default_def
          os_getenv_def if_truthy_def default_world_def bare_world_def)
  show ?thesis
    using h1 h2
      unimplemented_authentication [OF h1, of 7 "''isabelle''" 10]
      unimplemented_authentication [OF h1, of 7 "''isabelle''" 5]
      unimplemented_authentication [OF h2, of 3 "''isabelle''" 10]
    by simp
qed

text \<open>
  C5, as the code has it. With an API key resolved and the search-engine identifier unset
  or empty, no tool makes a remote call; and when \<^verbatim>\<open>build\<close> returns a client, each
  tool returns an error value whose message names \<^verbatim>\<open>GOOGLE_CSE_ID\<close>. The client is
  built before the identifier is read (lines 62 and 63), so an exception of
  \<^verbatim>\<open>build\<close> is what the tool reports instead.
\<close>

theorem missing_identifier_error:
  assumes "fst (get_google_credentials w) = Inr (Some (ApiKeyCredential key))"
    and "environ w ''GOOGLE_CSE_ID'' = None \<or> environ w ''GOOGLE_CSE_ID'' = Some []"
  shows "calls (snd (google_search w query num_results)) = []
       \<and> calls (snd (google_search_web w query num_results)) = []
       \<and> calls (snd (google_search_images w query num_results)) = []
       \<and> (\<forall>service. build w ''customsearch'' ''v1'' key = Inr service \<longrightarrow>
            fst (google_search w query num_results)
              = Inr (PDict [(''error'',
                   PStr ''GOOGLE_CSE_ID environment variable not set for Custom Search API'')])
          \<and> fst (google_search_web w query num_results)
              = Inr (PDict [(''error'', PStr ''GOOGLE_CSE_ID environment variable not set'')])
          \<and> fst (google_search_images w query num_results)
              = Inr (PDict [(''error'', PStr ''GOOGLE_CSE_ID environment variable not set'')]))
       \<and> mentions ''GOOGLE_CSE_ID''
            ''GOOGLE_CSE_ID environment variable not set for Custom Search API''
       \<and> mentions ''GOOGLE_CSE_ID'' ''GOOGLE_CSE_ID environment variable not set''"
proof -
  obtain t where g: "get_google_credentials w = (Inr (Some (ApiKeyCredential key)), t)"
    and t: "calls t = []"
    using resolved [OF assms(1)] by blast
  have k: "truthy (Some (ApiKeyCredential key))"
    using resolved_key_nonempty [OF assms(1)] by (simp add: truthy_def)
  have cx: "if_truthy (os_getenv w ''GOOGLE_CSE_ID'') = None"
    using assms(2) by (auto simp: if_truthy_def os_getenv_def)
  have general: "google_search_try w query num_results =
      (case build w ''customsearch'' ''v1'' key of
         Inl e \<Rightarrow> (Inl e, t)
       | Inr service \<Rightarrow>
           (Inr (error_dict ''GOOGLE_CSE_ID environment variable not set for Custom Search API''),
            t))"
    by (simp add: google_search_try_def g k cx split: sum.splits)
  have web: "google_search_web_try w query num_results =
      (case build w ''customsearch'' ''v1'' key of
         Inl e \<Rightarrow> (Inl e, t)
       | Inr service \<Rightarrow> (Inr (error_dict ''GOOGLE_CSE_ID environment variable not set''), t))"
    by (simp add: google_search_web_try_def g k cx split: sum.splits)
  have images: "google_search_images_try w query num_results =
      (case build w ''customsearch'' ''v1'' key of
         Inl e \<Rightarrow> (Inl e, t)
       | Inr service \<Rightarrow> (Inr (error_dict ''GOOGLE_CSE_ID environment variable not set''), t))"
    by (simp add: google_search_images_try_def g k cx split: sum.splits)
  have m: "mentions ''GOOGLE_CSE_ID''
             ''GOOGLE_CSE_ID environment variable not set for Custom Search API''
         \<and> mentions ''GOOGLE_CSE_ID'' ''GOOGLE_CSE_ID environment variable not set''"
    by simp
  have c: "calls (snd (google_search w query num_results)) = []
       \<and> calls (snd (google_search_web w query num_results)) = []
       \<and> calls (snd (google_search_images w query num_results)) = []"
    by (simp add: google_search_def google_search_web_def google_search_images_def
          calls_except_clauses general web images t split: sum.splits)
  have r: "\<forall>service. build w ''customsearch'' ''v1'' key = Inr service \<longrightarrow>
            fst (google_search w query num_results)
              = Inr (PDict [(''error'',
                   PStr ''GOOGLE_CSE_ID environment variable not set for Custom Search API'')])
          \<and> fst (google_search_web w query num_results)
              = Inr (PDict [(''error'', PStr ''GOOGLE_CSE_ID environment variable not set'')])
          \<and> fst (google_search_images w query num_results)
              = Inr (PDict [(''error'', PStr ''GOOGLE_CSE_ID environment variable not set'')])"
    by (simp add: google_search_def google_search_web_def google_search_images_def
          general web images except_clauses_def error_dict_def)
  show ?thesis using m c r by blast
qed

theorem missing_identifier_error_witness:
  "fst (get_google_credentials key_world) = Inr (Some (ApiKeyCredential ''k3y''))
   \<and> environ key_world ''GOOGLE_CSE_ID'' = None
   \<and> calls (snd (google_search key_world ''isabelle'' 10)) = []
   \<and> fst (google_search key_world ''isabelle'' 10)
       = Inr (PDict [(''error'',
            PStr ''GOOGLE_CSE_ID environment variable not set for Custom Search API'')])
   \<and> fst (google_search_web key_world ''isabelle'' 10)
       = Inr (PDict [(''error'', PStr ''GOOGLE_CSE_ID environment variable not set'')])
   \<and> fst (google_search_images key_world ''isabelle'' 10)
       = Inr (PDict [(''error'', PStr ''GOOGLE_CSE_ID environment variable not set'')])
   \<and> fst (get_google_credentials empty_id_world) = Inr (Some (ApiKeyCredential ''k3y''))
   \<and> environ empty_id_world ''GOOGLE_CSE_ID'' = Some []
   \<and> fst (google_search_web empty_id_world ''isabelle'' 10)
       = Inr (PDict [(''error'', PStr ''GOOGLE_CSE_ID environment variable not set'')])"
proof -
  have h1: "fst (get_google_credentials key_world) = Inr (Some (ApiKeyCredential ''k3y''))"
    by (simp add: get_google_credentials_def load_service_account_def os_getenv_def
          if_truthy_def key_world_def bare_world_def)
  have h2: "environ key_world ''GOOGLE_CSE_ID'' = None \<or> environ key_world ''GOOGLE_CSE_ID'' = Some []"
    by (simp add: key_world_def bare_world_def)
  have b: "build key_world ''customsearch'' ''v1'' ''k3y'' = Inr (answering (PDict []))"
    by (simp add: key_world_def bare_world_def)
  have h3: "fst (get_google_credentials empty_id_world) = Inr (Some (ApiKeyCredential ''k3y''))"
    by (simp add: get_google_credentials_def load_service_account_def os_getenv_def
          if_truthy_def empty_id_world_def bare_world_def)
  have h4: "environ empty_id_world ''GOOGLE_CSE_ID'' = None
            \<or> environ empty_id_world ''GOOGLE_CSE_ID'' = Some []"
    by (simp add: empty_id_world_def bare_world_def)
  have b': "build empty_id_world ''customsearch'' ''v1'' ''k3y'' = Inr (answering (PDict []))"
    by (simp add: empty_id_world_def bare_world_def)
  have e1: "environ key_world ''GOOGLE_CSE_ID'' = None"
    by (simp add: key_world_def bare_world_def)
  have e2: "environ empty_id_world ''GOOGLE_CSE_ID'' = Some []"
    by (simp add: empty_id_world_def bare_world_def)
  show ?thesis
    using h1 h3 e1 e2 b b'
      missing_identifier_error [OF h1 h2, of "''isabelle''" 10]
      missing_identifier_error [OF h3 h4, of "''isabelle''" 10]
    by simp
qed

text \<open>
  C5 as stated fails where the client cannot be built: the API key is resolved, the
  identifier is unset, and the general tool reports the exception of \<^verbatim>\<open>build\<close>, in
  a message that does not name \<^verbatim>\<open>GOOGLE_CSE_ID\<close>.
\<close>

theorem missing_identifier_counterexample:
  "fst (get_google_credentials no_client_world) = Inr (Some (ApiKeyCredential ''k3y''))
   \<and> environ no_client_world ''GOOGLE_CSE_ID'' = None
   \<and> fst (google_search no_client_world ''isabelle'' 10)
       = Inr (PDict [(''error'', PStr ''Unexpected error: unknown api'')])
   \<and> \<not> mentions ''GOOGLE_CSE_ID'' ''Unexpected error: unknown api''"
  by (simp add: google_search_def google_search_try_def except_clauses_def error_dict_def
        truthy_def get_google_credentials_def load_service_account_def os_getenv_def
        if_truthy_def no_client_world_def key_world_def bare_world_def)

section \<open>Results of a search\<close>

lemma general_item_dict: "is_dict item \<Longrightarrow> general_item item = Inr (search_result item)"
  by (cases item) (simp_all add: general_item_def search_result_def copied_def)

lemma comprehension_general_item:
  "list_all is_dict xs \<Longrightarrow> comprehension general_item xs = Inr (map search_result xs)"
  by (induction xs) (simp_all add: general_item_dict)

lemma result_list_well_formed:
  "response_items results = Some xs \<Longrightarrow>
   result_list general_item results = Inr (PList (map search_result xs))"
  by (auto simp: response_items_def result_list_def comprehension_general_item
           split: pyval.splits option.splits if_splits)

text \<open>
  C4. For a well-formed response (a dictionary whose \<^verbatim>\<open>items\<close>, when present, is a
  list of dictionaries) the general search returns one result for each item, in order:
  title, link and snippet as the item has them, the empty string for a missing one, and
  the source \<^verbatim>\<open>Google Custom Search\<close>. A response without \<^verbatim>\<open>items\<close> gives the
  empty list.
\<close>

theorem general_search_results:
  assumes "fst (get_google_credentials w) = Inr (Some (ApiKeyCredential key))"
    and "build w ''customsearch'' ''v1'' key = Inr service"
    and "environ w ''GOOGLE_CSE_ID'' = Some cx" and "cx \<noteq> []"
    and "list_attr service = Inr list_method"
    and "list_method \<lparr>q_param = query, cx_param = cx, num_param = min num_results 10,
                       searchType_param = None\<rparr> = Inr (Inr results)"
    and "response_items results = Some xs"
  shows "fst (google_search w query num_results) = Inr (PList (map search_result xs))
       \<and> (\<forall>kvs. results = PDict kvs \<and> map_of kvs ''items'' = None \<longrightarrow>
            fst (google_search w query num_results) = Inr (PList []))"
proof -
  have "fst (google_search_try w query num_results) = result_list general_item results"
    by (simp add: google_search_try_key [OF assms(1,3,4,2)] assms(5,6) client_outcome_def)
  then have r: "fst (google_search w query num_results) = Inr (PList (map search_result xs))"
    by (simp add: google_search_def except_clauses_Inr result_list_well_formed [OF assms(7)])
  have "xs = []" if "results = PDict kvs" and "map_of kvs ''items'' = None" for kvs
    using that assms(7) by (simp add: response_items_def)
  with r show ?thesis by auto
qed

theorem general_search_results_witness:
  "fst (get_google_credentials two_items_world) = Inr (Some (ApiKeyCredential ''k3y''))
   \<and> environ two_items_world ''GOOGLE_CSE_ID'' = Some ''cx1''
   \<and> response_items two_items
       = Some [PDict [(''title'', PStr ''A''), (''link'', PStr ''http://a''),
                      (''snippet'', PStr ''first'')],
               PDict [(''title'', PStr ''B''), (''link'', PStr ''http://b'')]]
   \<and> fst (google_search two_items_world ''isabelle'' 10)
       = Inr (PList
           [PDict [(''title'', PStr ''A''), (''link'', PStr ''http://a''),
                   (''snippet'', PStr ''first''), (''source'', PStr ''Google Custom Search'')],
            PDict [(''title'', PStr ''B''), (''link'', PStr ''http://b''),
                   (''snippet'', PStr []), (''source'', PStr ''Google Custom Search'')]])
   \<and> fst (get_google_credentials search_world) = Inr (Some (ApiKeyCredential ''k3y''))
   \<and> response_items (PDict []) = Some []
   \<and> fst (google_search search_world ''isabelle'' 10) = Inr (PList [])"
proof -
  have h1: "fst (get_google_credentials two_items_world) = Inr (Some (ApiKeyCredential ''k3y''))"
    by (simp add: get_google_credentials_def load_service_account_def os_getenv_def
          if_truthy_def two_items_world_def search_world_def bare_world_def)
  have h2: "build two_items_world ''customsearch'' ''v1'' ''k3y'' = Inr (answering two_items)"
    by (simp add: two_items_world_def search_world_def bare_world_def)
  have h3: "environ two_items_world ''GOOGLE_CSE_ID'' = Some ''cx1''"
    by (simp add: two_items_world_def search_world_def bare_world_def)
  have h4: "''cx1'' \<noteq> []" by simp
  have l1: "list_attr (answering two_items) = Inr (\<lambda>r. Inr (Inr two_items))"
    by (simp add: answering_def)
  have h5: "(\<lambda>r. Inr (Inr two_items)) \<lparr>q_param = ''isabelle'', cx_param = ''cx1'',
              num_param = min 10 10, searchType_param = None\<rparr> = Inr (Inr two_items)"
    by simp
  have h6: "response_items two_items
       = Some [PDict [(''title'', PStr ''A''), (''link'', PStr ''http://a''),
                      (''snippet'', PStr ''first'')],
               PDict [(''title'', PStr ''B''), (''link'', PStr ''http://b'')]]"
    by (simp add: response_items_def two_items_def)
  have g1: "fst (get_google_credentials search_world) = Inr (Some (ApiKeyCredential ''k3y''))"
    by (simp add: get_google_credentials_def load_service_account_def os_getenv_def
          if_truthy_def search_world_def bare_world_def)
  have g2: "build search_world ''customsearch'' ''v1'' ''k3y'' = Inr (answering (PDict []))"
    by (simp add: search_world_def bare_world_def)
  have g3: "environ search_world ''GOOGLE_CSE_ID'' = Some ''cx1''"
    by (simp add: search_world_def bare_world_def)
  have l2: "list_attr (answering (PDict [])) = Inr (\<lambda>r. Inr (Inr (PDict [])))"
    by (simp add: answering_def)
  have g5: "(\<lambda>r. Inr (Inr (PDict []))) \<lparr>q_param = ''isabelle'', cx_param = ''cx1'',
              num_param = min 10 10, searchType_param = None\<rparr> = Inr (Inr (PDict []))"
    by simp
  have g6: "response_items (PDict []) = Some []"
    by (simp add: response_items_def)
  show ?thesis
    using h1 h3 h6 g1 g6
      general_search_results [OF h1 h2 h3 h4 l1 h5 h6]
      general_search_results [OF g1 g2 g3 h4 l2 g5 g6]
    by (simp add: search_result_def copied_def)
qed

section \<open>Failures\<close>

text \<open>
  C6, as the code has it. Every invocation of a search tool returns a value: no exception
  leaves it. An exception raised anywhere in the body of the \<^verbatim>\<open>try\<close> (by the
  resolver, by \<^verbatim>\<open>build\<close>, by the lookup or the call of \<^verbatim>\<open>list\<close>, by the
  remote call, or while the results are built) is reported by its class: an
  \<^verbatim>\<open>HttpError\<close> as \<^verbatim>\<open>{"error": "Google API error: <details>"}\<close>, any other
  exception as \<^verbatim>\<open>{"error": "Unexpected error: <details>"}\<close>.
\<close>

theorem failures_are_error_values:
  "(\<exists>v. fst (google_search w query num_results) = Inr v)
   \<and> (\<exists>v. fst (google_search_web w query num_results) = Inr v)
   \<and> (\<exists>v. fst (google_search_images w query num_results) = Inr v)
   \<and> reported (HttpError m) = PDict [(''error'', PStr (''Google API error: '' @ m))]
   \<and> (\<not> is_HttpError e
      \<longrightarrow> reported e = PDict [(''error'', PStr (''Unexpected error: '' @ str_exn e))])
   \<and> (fst (get_google_credentials w) = Inl e
      \<longrightarrow> fst (google_search w query num_results) = Inr (reported e)
        \<and> fst (google_search_web w query num_results) = Inr (reported e)
        \<and> fst (google_search_images w query num_results) = Inr (reported e))
   \<and> (fst (get_google_credentials w) = Inr (Some (ApiKeyCredential key))
        \<and> build w ''customsearch'' ''v1'' key = Inl e
      \<longrightarrow> fst (google_search w query num_results) = Inr (reported e)
        \<and> fst (google_search_web w query num_results) = Inr (reported e)
        \<and> fst (google_search_images w query num_results) = Inr (reported e))
   \<and> (fst (get_google_credentials w) = Inr (Some (ApiKeyCredential key))
        \<and> build w ''customsearch'' ''v1'' key = Inr service
        \<and> environ w ''GOOGLE_CSE_ID'' = Some cx \<and> cx \<noteq> []
      \<longrightarrow> (list_attr service = Inl e
            \<longrightarrow> fst (google_search w query num_results) = Inr (reported e)
              \<and> fst (google_search_web w query num_results) = Inr (reported e)
              \<and> fst (google_search_images w query num_results) = Inr (reported e))
        \<and> (list_attr service = Inr list_method
            \<longrightarrow> (client_outcome (list_method
                     \<lparr>q_param = query, cx_param = cx, num_param = min num_results 10,
                       searchType_param = None\<rparr>) = Inl e
                 \<longrightarrow> fst (google_search w query num_results) = Inr (reported e))
              \<and> (client_outcome (list_method
                     \<lparr>q_param = query, cx_param = cx, num_param = min num_results 5,
                       searchType_param = Some ''web''\<rparr>) = Inl e
                 \<longrightarrow> fst (google_search_web w query num_results) = Inr (reported e))
              \<and> (client_outcome (list_method
                     \<lparr>q_param = query, cx_param = cx, num_param = min num_results 5,
                       searchType_param = Some ''image''\<rparr>) = Inl e
                 \<longrightarrow> fst (google_search_images w query num_results) = Inr (reported e))
              \<and> (client_outcome (list_method
                     \<lparr>q_param = query, cx_param = cx, num_param = min num_results 10,
                       searchType_param = None\<rparr>) = Inr results
                   \<and> result_list general_item results = Inl e
                 \<longrightarrow> fst (google_search w query num_results) = Inr (reported e))
              \<and> (client_outcome (list_method
                     \<lparr>q_param = query, cx_param = cx, num_param = min num_results 5,
                       searchType_param = Some ''web''\<rparr>) = Inr results
                   \<and> result_list web_item results = Inl e
                 \<longrightarrow> fst (google_search_web w query num_results) = Inr (reported e))
              \<and> (client_outcome (list_method
                     \<lparr>q_param = query, cx_param = cx, num_param = min num_results 5,
                       searchType_param = Some ''image''\<rparr>) = Inr results
                   \<and> result_list image_item results = Inl e
                 \<longrightarrow> fst (google_search_images w query num_results) = Inr (reported e))))"
proof -
  have returns: "(\<exists>v. fst (google_search w query num_results) = Inr v)
   \<and> (\<exists>v. fst (google_search_web w query num_results) = Inr v)
   \<and> (\<exists>v. fst (google_search_images w query num_results) = Inr v)"
    by (simp add: google_search_def google_search_web_def google_search_images_def
          except_clauses_returns)
  have words: "reported (HttpError m) = PDict [(''error'', PStr (''Google API error: '' @ m))]
   \<and> (\<not> is_HttpError e
      \<longrightarrow> reported e = PDict [(''error'', PStr (''Unexpected error: '' @ str_exn e))])"
    by (simp add: reported_def)
  have resolver: "fst (google_search w query num_results) = Inr (reported e)
    \<and> fst (google_search_web w query num_results) = Inr (reported e)
    \<and> fst (google_search_images w query num_results) = Inr (reported e)"
    if "fst (get_google_credentials w) = Inl e"
    by (simp add: google_search_def google_search_web_def google_search_images_def
          tool_result resolver_raises_tools [OF that])
  have client: "fst (google_search w query num_results) = Inr (reported e)
    \<and> fst (google_search_web w query num_results) = Inr (reported e)
    \<and> fst (google_search_images w query num_results) = Inr (reported e)"
    if "fst (get_google_credentials w) = Inr (Some (ApiKeyCredential key))"
      and "build w ''customsearch'' ''v1'' key = Inl e"
    by (simp add: google_search_def google_search_web_def google_search_images_def
          tool_result build_raises_tools [OF that])
  have lookup: "fst (google_search w query num_results) = Inr (reported e)
    \<and> fst (google_search_web w query num_results) = Inr (reported e)
    \<and> fst (google_search_images w query num_results) = Inr (reported e)"
    if a: "fst (get_google_credentials w) = Inr (Some (ApiKeyCredential key))"
      and b: "build w ''customsearch'' ''v1'' key = Inr service"
      and c: "environ w ''GOOGLE_CSE_ID'' = Some cx" "cx \<noteq> []"
      and l: "list_attr service = Inl e"
    by (simp add: google_search_def google_search_web_def google_search_images_def
          tool_result google_search_try_key(1) [OF a c b]
          google_search_web_try_key(1) [OF a c b]
          google_search_images_try_key(1) [OF a c b] l)
  have call: "(client_outcome (list_method
                     \<lparr>q_param = query, cx_param = cx, num_param = min num_results 10,
                       searchType_param = None\<rparr>) = Inl e
                 \<longrightarrow> fst (google_search w query num_results) = Inr (reported e))
              \<and> (client_outcome (list_method
                     \<lparr>q_param = query, cx_param = cx, num_param = min num_results 5,
                       searchType_param = Some ''web''\<rparr>) = Inl e
                 \<longrightarrow> fst (google_search_web w query num_results) = Inr (reported e))
              \<and> (client_outcome (list_method
                     \<lparr>q_param = query, cx_param = cx, num_param = min num_results 5,
                       searchType_param = Some ''image''\<rparr>) = Inl e
                 \<longrightarrow> fst (google_search_images w query num_results) = Inr (reported e))
              \<and> (client_outcome (list_method
                     \<lparr>q_param = query, cx_param = cx, num_param = min num_results 10,
                       searchType_param = None\<rparr>) = Inr results
                   \<and> result_list general_item results = Inl e
                 \<longrightarrow> fst (google_search w query num_results) = Inr (reported e))
              \<and> (client_outcome (list_method
                     \<lparr>q_param = query, cx_param = cx, num_param = min num_results 5,
                       searchType_param = Some ''web''\<rparr>) = Inr results
                   \<and> result_list web_item results = Inl e
                 \<longrightarrow> fst (google_search_web w query num_results) = Inr (reported e))
              \<and> (client_outcome (list_method
                     \<lparr>q_param = query, cx_param = cx, num_param = min num_results 5,
                       searchType_param = Some ''image''\<rparr>) = Inr results
                   \<and> result_list image_item results = Inl e
                 \<longrightarrow> fst (google_search_images w query num_results) = Inr (reported e))"
    if a: "fst (get_google_credentials w) = Inr (Some (ApiKeyCredential key))"
      and b: "build w ''customsearch'' ''v1'' key = Inr service"
      and c: "environ w ''GOOGLE_CSE_ID'' = Some cx" "cx \<noteq> []"
      and l: "list_attr service = Inr list_method"
    by (simp add: google_search_def google_search_web_def google_search_images_def
          tool_result google_search_try_key(1) [OF a c b]
          google_search_web_try_key(1) [OF a c b]
          google_search_images_try_key(1) [OF a c b] l)
  show ?thesis
    using returns words resolver client lookup call by blast
qed

theorem failures_are_error_values_witness:
  "fst (google_search quota_world ''isabelle'' 10)
     = Inr (PDict [(''error'', PStr ''Google API error: quota exceeded'')])
   \<and> fst (google_search_web connection_world ''isabelle'' 5)
     = Inr (PDict [(''error'', PStr ''Unexpected error: connection reset'')])
   \<and> fst (google_search_images no_list_world ''isabelle'' 5)
     = Inr (PDict [(''error'', PStr ''Unexpected error: no attribute list'')])
   \<and> fst (google_search discovery_world ''isabelle'' 10)
     = Inr (PDict [(''error'', PStr ''Google API error: discovery unavailable'')])
   \<and> fst (google_search metadata_down_world ''isabelle'' 10)
     = Inr (PDict [(''error'', PStr ''Unexpected error: timed out'')])
   \<and> fst (google_search_web null_items_world ''isabelle'' 5)
     = Inr (PDict [(''error'',
          PStr (''Unexpected error: '' @ quoted ''NoneType'' @ '' object is not iterable''))])"
proof -
  have q: "fst (get_google_credentials quota_world) = Inr (Some (ApiKeyCredential ''k3y''))
      \<and> build quota_world ''customsearch'' ''v1'' ''k3y''
          = Inr (failing (HttpError ''quota exceeded''))
      \<and> environ quota_world ''GOOGLE_CSE_ID'' = Some ''cx1'' \<and> ''cx1'' \<noteq> []"
    by (simp add: get_google_credentials_def load_service_account_def os_getenv_def
          if_truthy_def quota_world_def search_world_def bare_world_def)
  note rq = failures_are_error_values [of quota_world "''isabelle''" 10 "[]"
      "HttpError ''quota exceeded''" "''k3y''" "failing (HttpError ''quota exceeded'')" "''cx1''"
      "\<lambda>r. Inr (Inl (HttpError ''quota exceeded''))" PNone,
      THEN conjunct2, THEN conjunct2, THEN conjunct2, THEN conjunct2, THEN conjunct2,
      THEN conjunct2, THEN conjunct2, THEN mp, OF q]
  have 1: "fst (google_search quota_world ''isabelle'' 10)
     = Inr (PDict [(''error'', PStr ''Google API error: quota exceeded'')])"
    using rq by (simp add: failing_def client_outcome_def reported_def)
  have c: "fst (get_google_credentials connection_world) = Inr (Some (ApiKeyCredential ''k3y''))
      \<and> build connection_world ''customsearch'' ''v1'' ''k3y''
          = Inr (failing (ConnectionError ''connection reset''))
      \<and> environ connection_world ''GOOGLE_CSE_ID'' = Some ''cx1'' \<and> ''cx1'' \<noteq> []"
    by (simp add: get_google_credentials_def load_service_account_def os_getenv_def
          if_truthy_def connection_world_def search_world_def bare_world_def)
  note rc = failures_are_error_values [of connection_world "''isabelle''" 5 "[]"
      "ConnectionError ''connection reset''" "''k3y''"
      "failing (ConnectionError ''connection reset'')" "''cx1''"
      "\<lambda>r. Inr (Inl (ConnectionError ''connection reset''))" PNone,
      THEN conjunct2, THEN conjunct2, THEN conjunct2, THEN conjunct2, THEN conjunct2,
      THEN conjunct2, THEN conjunct2, THEN mp, OF c]
  have 2: "fst (google_search_web connection_world ''isabelle'' 5)
     = Inr (PDict [(''error'', PStr ''Unexpected error: connection reset'')])"
    using rc by (simp add: failing_def client_outcome_def reported_def)
  have n: "fst (get_google_credentials no_list_world) = Inr (Some (ApiKeyCredential ''k3y''))
      \<and> build no_list_world ''customsearch'' ''v1'' ''k3y''
          = Inr \<lparr>list_attr = Inl (AttributeError ''no attribute list'')\<rparr>
      \<and> environ no_list_world ''GOOGLE_CSE_ID'' = Some ''cx1'' \<and> ''cx1'' \<noteq> []"
    by (simp add: get_google_credentials_def load_service_account_def os_getenv_def
          if_truthy_def no_list_world_def search_world_def bare_world_def)
  note rn = failures_are_error_values [of no_list_world "''isabelle''" 5 "[]"
      "AttributeError ''no attribute list''" "''k3y''"
      "\<lparr>list_attr = Inl (AttributeError ''no attribute list'')\<rparr>" "''cx1''"
      "\<lambda>r. Inl (AttributeError ''no attribute list'')" PNone,
      THEN conjunct2, THEN conjunct2, THEN conjunct2, THEN conjunct2, THEN conjunct2,
      THEN conjunct2, THEN conjunct2, THEN mp, OF n]
  have 3: "fst (google_search_images no_list_world ''isabelle'' 5)
     = Inr (PDict [(''error'', PStr ''Unexpected error: no attribute list'')])"
    using rn by (simp add: reported_def)
  have d: "fst (get_google_credentials discovery_world) = Inr (Some (ApiKeyCredential ''k3y''))
      \<and> build discovery_world ''customsearch'' ''v1'' ''k3y''
          = Inl (HttpError ''discovery unavailable'')"
    by (simp add: get_google_credentials_def load_service_account_def os_getenv_def
          if_truthy_def discovery_world_def search_world_def bare_world_def)
  note rd = failures_are_error_values [of discovery_world "''isabelle''" 10 "[]"
      "HttpError ''discovery unavailable''" "''k3y''" "answering PNone" "''cx1''"
      "\<lambda>r. Inr (Inr PNone)" PNone,
      THEN conjunct2, THEN conjunct2, THEN conjunct2, THEN conjunct2, THEN conjunct2,
      THEN conjunct2, THEN conjunct1, THEN mp, OF d]
  have 4: "fst (google_search discovery_world ''isabelle'' 10)
     = Inr (PDict [(''error'', PStr ''Google API error: discovery unavailable'')])"
    using rd by (simp add: reported_def)
  have m: "fst (get_google_credentials metadata_down_world) = Inl (OtherException ''timed out'')"
    by (simp add: get_google_credentials_def load_service_account_def discover_default_def
          os_getenv_def if_truthy_def metadata_down_world_def bare_world_def)
  note rm = failures_are_error_values [of metadata_down_world "''isabelle''" 10 "[]"
      "OtherException ''timed out''" "''k3y''" "answering PNone" "''cx1''"
      "\<lambda>r. Inr (Inr PNone)" PNone,
      THEN conjunct2, THEN conjunct2, THEN conjunct2, THEN conjunct2, THEN conjunct2,
      THEN conjunct1, THEN mp, OF m]
  have 5: "fst (google_search metadata_down_world ''isabelle'' 10)
     = Inr (PDict [(''error'', PStr ''Unexpected error: timed out'')])"
    using rm by (simp add: reported_def)
  have i: "fst (get_google_credentials null_items_world) = Inr (Some (ApiKeyCredential ''k3y''))
      \<and> build null_items_world ''customsearch'' ''v1'' ''k3y''
          = Inr (answering (PDict [(''items'', PNone)]))
      \<and> environ null_items_world ''GOOGLE_CSE_ID'' = Some ''cx1'' \<and> ''cx1'' \<noteq> []"
    by (simp add: get_google_credentials_def load_service_account_def os_getenv_def
          if_truthy_def null_items_world_def search_world_def bare_world_def)
  note ri = failures_are_error_values [of null_items_world "''isabelle''" 5 "[]"
      "TypeError (quoted ''NoneType'' @ '' object is not iterable'')" "''k3y''"
      "answering (PDict [(''items'', PNone)])" "''cx1''"
      "\<lambda>r. Inr (Inr (PDict [(''items'', PNone)]))" "PDict [(''items'', PNone)]",
      THEN conjunct2, THEN conjunct2, THEN conjunct2, THEN conjunct2, THEN conjunct2,
      THEN conjunct2, THEN conjunct2, THEN mp, OF i]
  have 6: "fst (google_search_web null_items_world ''isabelle'' 5)
     = Inr (PDict [(''error'',
          PStr (''Unexpected error: '' @ quoted ''NoneType'' @ '' object is not iterable''))])"
    using ri by (simp add: answering_def client_outcome_def result_list_def reported_def)
  show ?thesis
    using 1 2 3 4 5 6 by blast
qed

text \<open>
  C6 as stated fails in both directions. A transport failure of the remote call that is
  not an \<^verbatim>\<open>HttpError\<close> (the request is executed, the connection is reset) is
  reported as an unexpected error, not as a Google API error. An \<^verbatim>\<open>HttpError\<close>
  raised by \<^verbatim>\<open>build\<close>, before any remote call, is reported as a Google API error,
  not as an unexpected error.
\<close>

theorem failures_are_error_values_counterexample:
  "calls (snd (google_search connection_world ''isabelle'' 10))
     = [\<lparr>q_param = ''isabelle'', cx_param = ''cx1'', num_param = 10,
         searchType_param = None\<rparr>]
   \<and> fst (google_search_try connection_world ''isabelle'' 10)
     = Inl (ConnectionError ''connection reset'')
   \<and> fst (google_search connection_world ''isabelle'' 10)
     = Inr (PDict [(''error'', PStr ''Unexpected error: connection reset'')])
   \<and> build discovery_world ''customsearch'' ''v1'' ''k3y''
     = Inl (HttpError ''discovery unavailable'')
   \<and> calls (snd (google_search discovery_world ''isabelle'' 10)) = []
   \<and> fst (google_search discovery_world ''isabelle'' 10)
     = Inr (PDict [(''error'', PStr ''Google API error: discovery unavailable'')])"
  by (simp add: google_search_def google_search_try_def except_clauses_def error_dict_def
        truthy_def get_google_credentials_def load_service_account_def os_getenv_def
        if_truthy_def failing_def connection_world_def discovery_world_def search_world_def
        bare_world_def)

section \<open>Facts about the health check\<close>

lemma health_raises:
  "fst (get_google_credentials w) = Inl e \<Longrightarrow> fst (get_search_health w) = Inl e"
  by (cases "get_google_credentials w") (simp add: get_search_health_def)

lemma health_returns:
  "fst (get_google_credentials w) = Inr c \<Longrightarrow>
   fst (get_search_health w) =
     Inr (PDict
       [(''status'', PStr (if c \<noteq> None then ''healthy'' else ''unhealthy'')),
        (''credentials_available'', PBool (c \<noteq> None)),
        (''search_engine_id_set'', PBool (if_truthy (environ w ''GOOGLE_CSE_ID'') \<noteq> None)),
        (''environment_variables'', PDict
           [(''GOOGLE_APPLICATION_CREDENTIALS'',
               opt_str (environ w ''GOOGLE_APPLICATION_CREDENTIALS'')),
            (''GOOGLE_API_KEY'',
               (if if_truthy (environ w ''GOOGLE_API_KEY'') \<noteq> None
                then PStr ''***'' else PNone)),
            (''GOOGLE_CSE_ID'', opt_str (environ w ''GOOGLE_CSE_ID''))])])"
  using get_google_credentials_truthy [of w c]
  by (cases "get_google_credentials w") (simp add: get_search_health_def os_getenv_def Let_def)

lemma health_status:
  "health_field w [''status''] = Some (PStr ''healthy'')
     \<longleftrightarrow> (\<exists>c. fst (get_google_credentials w) = Inr (Some c))"
proof (cases "fst (get_google_credentials w)")
  case (Inl e)
  then show ?thesis by (simp add: health_field_def health_raises)
next
  case (Inr c)
  then show ?thesis by (auto simp: health_field_def health_returns)
qed

lemma resolver_raises_only_from_discovery:
  "fst (get_google_credentials w) = Inl x \<Longrightarrow>
   auth_default w = Inl x \<and> \<not> is_DefaultCredentialsError x"
  by (auto simp: get_google_credentials_def discover_default_def
           split: prod.splits option.splits sum.splits if_splits)

lemma resolver_key_only:
  "environ w ''GOOGLE_APPLICATION_CREDENTIALS'' = None \<Longrightarrow>
   environ w ''GOOGLE_API_KEY'' = Some k \<Longrightarrow> k \<noteq> [] \<Longrightarrow>
   fst (get_google_credentials w) = Inr (Some (ApiKeyCredential k))"
  by (simp add: get_google_credentials_def load_service_account_def os_getenv_def if_truthy_def)

text \<open>
  C8, as the code has it. With only the API key configured (non-empty), the health check
  reports \<^verbatim>\<open>healthy\<close>, \<^verbatim>\<open>credentials_available\<close> true,
  \<^verbatim>\<open>search_engine_id_set\<close> true exactly when the identifier is set to a non-empty
  string, and \<^verbatim>\<open>***\<close> in the key field; what it returns is the same for every
  non-empty key. For every world, the status is \<^verbatim>\<open>healthy\<close> exactly when the
  resolver returns a credential, and the key field is \<^verbatim>\<open>***\<close> for a non-empty key
  and \<^verbatim>\<open>None\<close> otherwise.
\<close>

theorem health_with_api_key:
  "(environ w ''GOOGLE_APPLICATION_CREDENTIALS'' = None
      \<and> environ w ''GOOGLE_API_KEY'' = Some k \<and> k \<noteq> []
     \<longrightarrow> health_field w [''status''] = Some (PStr ''healthy'')
       \<and> health_field w [''credentials_available''] = Some (PBool True)
       \<and> health_field w [''search_engine_id_set'']
           = Some (PBool (\<exists>s. environ w ''GOOGLE_CSE_ID'' = Some s \<and> s \<noteq> []))
       \<and> health_field w [''environment_variables'', ''GOOGLE_API_KEY'']
           = Some (PStr ''***'')
       \<and> (\<forall>k'. k' \<noteq> [] \<longrightarrow>
            fst (get_search_health (w\<lparr>environ := (environ w)(''GOOGLE_API_KEY'' \<mapsto> k')\<rparr>))
              = fst (get_search_health w)))
   \<and> (health_field w [''status''] = Some (PStr ''healthy'')
        \<longleftrightarrow> (\<exists>c. fst (get_google_credentials w) = Inr (Some c)))
   \<and> (fst (get_google_credentials w) = Inr r
      \<longrightarrow> health_field w [''environment_variables'', ''GOOGLE_API_KEY'']
            = Some (case environ w ''GOOGLE_API_KEY'' of
                      None \<Rightarrow> PNone
                    | Some s \<Rightarrow> if s = [] then PNone else PStr ''***''))"
proof -
  have first: "health_field w [''status''] = Some (PStr ''healthy'')
       \<and> health_field w [''credentials_available''] = Some (PBool True)
       \<and> health_field w [''search_engine_id_set'']
           = Some (PBool (\<exists>s. environ w ''GOOGLE_CSE_ID'' = Some s \<and> s \<noteq> []))
       \<and> health_field w [''environment_variables'', ''GOOGLE_API_KEY'']
           = Some (PStr ''***'')
       \<and> (\<forall>k'. k' \<noteq> [] \<longrightarrow>
            fst (get_search_health (w\<lparr>environ := (environ w)(''GOOGLE_API_KEY'' \<mapsto> k')\<rparr>))
              = fst (get_search_health w))"
    if a: "environ w ''GOOGLE_APPLICATION_CREDENTIALS'' = None"
      and b: "environ w ''GOOGLE_API_KEY'' = Some k" and c: "k \<noteq> []"
  proof -
    have g: "fst (get_google_credentials w) = Inr (Some (ApiKeyCredential k))"
      using resolver_key_only [OF a b c] .
    have fields: "health_field w [''status''] = Some (PStr ''healthy'')
       \<and> health_field w [''credentials_available''] = Some (PBool True)
       \<and> health_field w [''search_engine_id_set'']
           = Some (PBool (\<exists>s. environ w ''GOOGLE_CSE_ID'' = Some s \<and> s \<noteq> []))
       \<and> health_field w [''environment_variables'', ''GOOGLE_API_KEY'']
           = Some (PStr ''***'')"
      using b c by (auto simp: health_field_def health_returns [OF g] if_truthy_None)
    have same: "fst (get_search_health (w\<lparr>environ := (environ w)(''GOOGLE_API_KEY'' \<mapsto> k')\<rparr>))
              = fst (get_search_health w)" if k': "k' \<noteq> []" for k'
    proof -
      let ?w' = "w\<lparr>environ := (environ w)(''GOOGLE_API_KEY'' \<mapsto> k')\<rparr>"
      have g': "fst (get_google_credentials ?w') = Inr (Some (ApiKeyCredential k'))"
        using a k' by (intro resolver_key_only) simp_all
      show ?thesis
        using b c k' by (simp add: health_returns [OF g] health_returns [OF g'] if_truthy_def)
    qed
    show ?thesis using fields same by blast
  qed
  have third: "health_field w [''environment_variables'', ''GOOGLE_API_KEY'']
            = Some (case environ w ''GOOGLE_API_KEY'' of
                      None \<Rightarrow> PNone
                    | Some s \<Rightarrow> if s = [] then PNone else PStr ''***'')"
    if "fst (get_google_credentials w) = Inr r"
    by (simp add: health_field_def health_returns [OF that] if_truthy_def split: option.splits)
  show ?thesis
    using first health_status [of w] third by blast
qed

theorem health_with_api_key_witness:
  "environ search_world ''GOOGLE_APPLICATION_CREDENTIALS'' = None
   \<and> environ search_world ''GOOGLE_API_KEY'' = Some ''k3y''
   \<and> health_field search_world [''status''] = Some (PStr ''healthy'')
   \<and> health_field search_world [''credentials_available''] = Some (PBool True)
   \<and> health_field search_world [''search_engine_id_set''] = Some (PBool True)
   \<and> health_field search_world [''environment_variables'', ''GOOGLE_API_KEY'']
       = Some (PStr ''***'')
   \<and> fst (get_search_health
            (search_world\<lparr>environ := (environ search_world)(''GOOGLE_API_KEY'' \<mapsto> ''other'')\<rparr>))
       = fst (get_search_health search_world)
   \<and> environ key_world ''GOOGLE_CSE_ID'' = None
   \<and> health_field key_world [''search_engine_id_set''] = Some (PBool False)
   \<and> fst (get_google_credentials bare_world) = Inr None
   \<and> health_field bare_world [''status''] \<noteq> Some (PStr ''healthy'')
   \<and> health_field bare_world [''environment_variables'', ''GOOGLE_API_KEY''] = Some PNone"
proof -
  have e1: "environ search_world ''GOOGLE_APPLICATION_CREDENTIALS'' = None
      \<and> environ search_world ''GOOGLE_API_KEY'' = Some ''k3y'' \<and> ''k3y'' \<noteq> []
      \<and> environ search_world ''GOOGLE_CSE_ID'' = Some ''cx1''"
    by (simp add: search_world_def bare_world_def)
  have e2: "environ key_world ''GOOGLE_APPLICATION_CREDENTIALS'' = None
      \<and> environ key_world ''GOOGLE_API_KEY'' = Some ''k3y''
      \<and> environ key_world ''GOOGLE_CSE_ID'' = None"
    by (simp add: key_world_def bare_world_def)
  have e3: "fst (get_google_credentials bare_world) = Inr None
      \<and> environ bare_world ''GOOGLE_API_KEY'' = None"
    by (simp add: get_google_credentials_def load_service_account_def discover_default_def
          os_getenv_def if_truthy_def bare_world_def)
  show ?thesis
    using e1 e2 e3
      health_with_api_key [of search_world "''k3y''"]
      health_with_api_key [of key_world "''k3y''"]
      health_with_api_key [of bare_world _ None]
    by simp
qed

text \<open>
  C8 as stated fails where the identifier is set to the empty string: only the API key
  is configured, \<^verbatim>\<open>GOOGLE_CSE_ID\<close> is set, and \<^verbatim>\<open>search_engine_id_set\<close> is false.
\<close>

theorem health_with_api_key_counterexample:
  "environ empty_id_world ''GOOGLE_APPLICATION_CREDENTIALS'' = None
   \<and> environ empty_id_world ''GOOGLE_API_KEY'' = Some ''k3y''
   \<and> environ empty_id_world ''GOOGLE_CSE_ID'' = Some []
   \<and> health_field empty_id_world [''search_engine_id_set''] = Some (PBool False)"
  by (simp add: health_field_def get_search_health_def get_google_credentials_def
        load_service_account_def os_getenv_def if_truthy_def truthy_def Let_def
        empty_id_world_def bare_world_def)

lemma discovery_reached:
  assumes n: "\<not> (\<exists>p c. environ w ''GOOGLE_APPLICATION_CREDENTIALS'' = Some p \<and> os_path_exists w p
               \<and> from_service_account_file w p = Inr c)"
    and k: "environ w ''GOOGLE_API_KEY'' = None \<or> environ w ''GOOGLE_API_KEY'' = Some []"
  shows "fst (get_google_credentials w) = fst (discover_default w)"
proof -
  have l: "fst (load_service_account w) = None"
    using n by (cases "fst (load_service_account w)") (auto simp: load_service_account_Some)
  have t: "if_truthy (os_getenv w ''GOOGLE_API_KEY'') = None"
    using k by (simp add: if_truthy_None os_getenv_def)
  show ?thesis by (simp add: resolver_after_load [OF l] t)
qed

lemma discover_default_raises:
  "auth_default w = Inl e \<Longrightarrow>
   fst (discover_default w) = (if is_DefaultCredentialsError e then Inr None else Inl e)"
  by (simp add: discover_default_def)

text \<open>
  C9. The only exceptions that leave the resolver are those of default discovery that are
  not \<^verbatim>\<open>DefaultCredentialsError\<close>: an exception of the service-account loader is
  caught whatever its class, and \<^verbatim>\<open>DefaultCredentialsError\<close> gives \<^verbatim>\<open>None\<close>.
  When discovery is reached (no service-account credential loaded, no non-empty API key)
  and raises another exception, that exception leaves the resolver and, the health check
  having no handler, the health check as well, which then returns no value.
\<close>

theorem resolver_exceptions:
  "(fst (get_google_credentials w) = Inl x
      \<longrightarrow> auth_default w = Inl x \<and> \<not> is_DefaultCredentialsError x
        \<and> fst (get_search_health w) = Inl x)
   \<and> (\<not> (\<exists>p c. environ w ''GOOGLE_APPLICATION_CREDENTIALS'' = Some p \<and> os_path_exists w p
               \<and> from_service_account_file w p = Inr c)
        \<and> (environ w ''GOOGLE_API_KEY'' = None \<or> environ w ''GOOGLE_API_KEY'' = Some [])
        \<and> auth_default w = Inl e
      \<longrightarrow> (is_DefaultCredentialsError e \<longrightarrow> fst (get_google_credentials w) = Inr None)
        \<and> (\<not> is_DefaultCredentialsError e
            \<longrightarrow> fst (get_google_credentials w) = Inl e
              \<and> fst (get_search_health w) = Inl e
              \<and> (\<forall>h. fst (get_search_health w) \<noteq> Inr h)))"
proof -
  have a: "auth_default w = Inl x \<and> \<not> is_DefaultCredentialsError x
        \<and> fst (get_search_health w) = Inl x"
    if r: "fst (get_google_credentials w) = Inl x"
    using resolver_raises_only_from_discovery [OF r] health_raises [OF r] by simp
  have b: "(is_DefaultCredentialsError e \<longrightarrow> fst (get_google_credentials w) = Inr None)
        \<and> (\<not> is_DefaultCredentialsError e
            \<longrightarrow> fst (get_google_credentials w) = Inl e
              \<and> fst (get_search_health w) = Inl e
              \<and> (\<forall>h. fst (get_search_health w) \<noteq> Inr h))"
    if n: "\<not> (\<exists>p c. environ w ''GOOGLE_APPLICATION_CREDENTIALS'' = Some p \<and> os_path_exists w p
               \<and> from_service_account_file w p = Inr c)"
      and k: "environ w ''GOOGLE_API_KEY'' = None \<or> environ w ''GOOGLE_API_KEY'' = Some []"
      and d: "auth_default w = Inl e"
  proof (cases "is_DefaultCredentialsError e")
    case True
    then show ?thesis
      by (simp add: discovery_reached [OF n k] discover_default_raises [OF d])
  next
    case False
    then have r: "fst (get_google_credentials w) = Inl e"
      by (simp add: discovery_reached [OF n k] discover_default_raises [OF d])
    show ?thesis
      using False r health_raises [OF r] by simp
  qed
  show ?thesis
    using a b by blast
qed

theorem resolver_exceptions_witness:
  "environ metadata_down_world ''GOOGLE_API_KEY'' = None
   \<and> auth_default metadata_down_world = Inl (OtherException ''timed out'')
   \<and> fst (get_google_credentials metadata_down_world) = Inl (OtherException ''timed out'')
   \<and> fst (get_search_health metadata_down_world) = Inl (OtherException ''timed out'')
   \<and> auth_default bare_world = Inl (DefaultCredentialsError ''no default credentials'')
   \<and> fst (get_google_credentials bare_world) = Inr None"
proof -
  have c1: "\<not> (\<exists>p c. environ metadata_down_world ''GOOGLE_APPLICATION_CREDENTIALS'' = Some p
               \<and> os_path_exists metadata_down_world p
               \<and> from_service_account_file metadata_down_world p = Inr c)
      \<and> (environ metadata_down_world ''GOOGLE_API_KEY'' = None
          \<or> environ metadata_down_world ''GOOGLE_API_KEY'' = Some [])
      \<and> auth_default metadata_down_world = Inl (OtherException ''timed out'')"
    by (simp add: metadata_down_world_def bare_world_def)
  have c2: "\<not> (\<exists>p c. environ bare_world ''GOOGLE_APPLICATION_CREDENTIALS'' = Some p
               \<and> os_path_exists bare_world p
               \<and> from_service_account_file bare_world p = Inr c)
      \<and> (environ bare_world ''GOOGLE_API_KEY'' = None
          \<or> environ bare_world ''GOOGLE_API_KEY'' = Some [])
      \<and> auth_default bare_world = Inl (DefaultCredentialsError ''no default credentials'')"
    by (simp add: bare_world_def)
  note r1 = resolver_exceptions [of metadata_down_world "OtherException ''timed out''"
      "OtherException ''timed out''", THEN conjunct2, THEN mp, OF c1]
  note r2 = resolver_exceptions [of bare_world "OtherException ''timed out''"
      "DefaultCredentialsError ''no default credentials''", THEN conjunct2, THEN mp, OF c2]
  have k: "environ metadata_down_world ''GOOGLE_API_KEY'' = None"
    by (simp add: metadata_down_world_def bare_world_def)
  have d1: "fst (get_google_credentials metadata_down_world) = Inl (OtherException ''timed out'')
      \<and> fst (get_search_health metadata_down_world) = Inl (OtherException ''timed out'')"
    using r1 by simp
  have d2: "fst (get_google_credentials bare_world) = Inr None"
    using r2 by simp
  show ?thesis
    using c1 c2 k d1 d2 by blast
qed

text \<open>
  C10. When the service-account variable is set, the health check either raises what the
  resolver raises or returns a value whose environment snapshot holds the variable's
  value unchanged and the search-engine identifier unchanged (\<^verbatim>\<open>None\<close> when unset),
  while the key field holds \<^verbatim>\<open>***\<close> or \<^verbatim>\<open>None\<close>. It returns whenever the
  resolver does.
\<close>

theorem health_snapshot:
  assumes "environ w ''GOOGLE_APPLICATION_CREDENTIALS'' = Some p"
  shows "(case fst (get_search_health w) of
            Inl e \<Rightarrow> fst (get_google_credentials w) = Inl e
          | Inr h \<Rightarrow>
              (\<exists>c. fst (get_google_credentials w) = Inr c)
              \<and> item_at h [''environment_variables'', ''GOOGLE_APPLICATION_CREDENTIALS'']
                  = Some (PStr p)
              \<and> item_at h [''environment_variables'', ''GOOGLE_CSE_ID'']
                  = Some (case environ w ''GOOGLE_CSE_ID'' of
                            None \<Rightarrow> PNone | Some s \<Rightarrow> PStr s)
              \<and> item_at h [''environment_variables'', ''GOOGLE_API_KEY'']
                  = Some (case environ w ''GOOGLE_API_KEY'' of
                            None \<Rightarrow> PNone
                          | Some s \<Rightarrow> if s = [] then PNone else PStr ''***''))"
proof (cases "fst (get_google_credentials w)")
  case (Inl e)
  then show ?thesis by (simp add: health_raises)
next
  case (Inr c)
  then show ?thesis
    using assms
    by (simp add: health_returns [OF Inr] opt_str_def if_truthy_def split: option.splits)
qed

theorem health_snapshot_witness:
  "environ account_world ''GOOGLE_APPLICATION_CREDENTIALS'' = Some ''/sa.json''
   \<and> health_field account_world [''environment_variables'', ''GOOGLE_APPLICATION_CREDENTIALS'']
       = Some (PStr ''/sa.json'')
   \<and> health_field account_world [''environment_variables'', ''GOOGLE_CSE_ID''] = Some PNone
   \<and> health_field account_world [''environment_variables'', ''GOOGLE_API_KEY'']
       = Some (PStr ''***'')"
proof -
  have e: "environ account_world ''GOOGLE_APPLICATION_CREDENTIALS'' = Some ''/sa.json''"
    by (simp add: account_world_def bare_world_def)
  have r: "fst (get_google_credentials account_world) = Inr (Some (ServiceAccountCredential 7))"
    by (simp add: get_google_credentials_def load_service_account_def os_getenv_def
          os_path_exists_def account_world_def bare_world_def)
  have k: "environ account_world ''GOOGLE_CSE_ID'' = None
      \<and> environ account_world ''GOOGLE_API_KEY'' = Some ''k3y''"
    by (simp add: account_world_def bare_world_def)
  show ?thesis
    using e r k health_snapshot [OF e]
    by (auto simp: health_field_def split: sum.splits)
qed

end
